theory Spec2Isabelle
  imports Complex_Main "HOL-Library.Word"
begin

section \<open>The int of C++\<close>

text \<open>
  An \<open>int\<close> is a word of 32 bits read in two's complement by \<open>sint\<close>; \<open>+\<close>, \<open>-\<close> and \<open>*\<close>
  wrap around, which is what the compiled code does where C++ leaves a signed overflow
  undefined, and \<open><s\<close> is the signed comparison. \<open>INT_MAX\<close> is the largest value.
\<close>

type_synonym c_int = "32 word"

definition INT_MAX :: int where
  "INT_MAX = 2147483647"

section \<open>Eigen values\<close>

text \<open>
  The constructor works on Eigen values of scalar type \<open>double\<close>. Eigen is a library, not
  part of the repository: the operations that the file calls are written here as Eigen 3.3
  computes them. The embedding takes a \<open>double\<close> to be a real number: rounding and
  overflow are not followed. The one thing of IEEE arithmetic that is followed is a
  division by zero, which gives an infinity or a NaN where HOL's \<open>x / 0\<close> gives \<open>0\<close>: a
  value computed through such a division is \<open>None\<close> (no real number stands for it), every
  other value is \<open>Some\<close> of a real vector.
\<close>

datatype Vector3d = Vector3d (vx: real) (vy: real) (vz: real)

datatype Quaterniond = Quaterniond (qw: real) (qx: real) (qy: real) (qz: real)

datatype Matrix3d = Matrix3d
  (m00: real) (m01: real) (m02: real)
  (m10: real) (m11: real) (m12: real)
  (m20: real) (m21: real) (m22: real)

datatype Vector4d = Vector4d (v4_0: real) (v4_1: real) (v4_2: real) (v4_3: real)

text \<open>\<open>Affine3d\<close>: the rotation block \<open>linear()\<close> and the column \<open>translation()\<close>.\<close>

record Affine3d =
  linear_part :: Matrix3d
  translation :: Vector3d

definition vec_add :: "Vector3d \<Rightarrow> Vector3d \<Rightarrow> Vector3d" where
  "vec_add a b = Vector3d (vx a + vx b) (vy a + vy b) (vz a + vz b)"

definition vec_sub :: "Vector3d \<Rightarrow> Vector3d \<Rightarrow> Vector3d" where
  "vec_sub a b = Vector3d (vx a - vx b) (vy a - vy b) (vz a - vz b)"

definition vec_scale :: "Vector3d \<Rightarrow> real \<Rightarrow> Vector3d" where
  "vec_scale a s = Vector3d (vx a * s) (vy a * s) (vz a * s)"

definition vec_div :: "Vector3d \<Rightarrow> real \<Rightarrow> Vector3d" where
  "vec_div a s = Vector3d (vx a / s) (vy a / s) (vz a / s)"

definition vec_norm :: "Vector3d \<Rightarrow> real" where
  "vec_norm a = sqrt (vx a * vx a + vy a * vy a + vz a * vz a)"

text \<open>A vector or a scalar divided by an \<open>int\<close>: no real value when the divisor is zero.\<close>

definition vec_div_int :: "Vector3d \<Rightarrow> c_int \<Rightarrow> Vector3d option" where
  "vec_div_int a d = (if d = 0 then None else Some (vec_div a (real_of_int (sint d))))"

definition div_int :: "real \<Rightarrow> c_int \<Rightarrow> real option" where
  "div_int a d = (if d = 0 then None else Some (a / real_of_int (sint d)))"

definition coeff :: "Matrix3d \<Rightarrow> nat \<Rightarrow> nat \<Rightarrow> real" where
  "coeff m r c =
     (if r = 0 then (if c = 0 then m00 m else if c = 1 then m01 m else m02 m)
      else if r = 1 then (if c = 0 then m10 m else if c = 1 then m11 m else m12 m)
      else (if c = 0 then m20 m else if c = 1 then m21 m else m22 m))"

definition mat_trace :: "Matrix3d \<Rightarrow> real" where
  "mat_trace m = m00 m + m11 m + m22 m"

definition mat_mul :: "Matrix3d \<Rightarrow> Matrix3d \<Rightarrow> Matrix3d" where
  "mat_mul a b = Matrix3d
     (m00 a * m00 b + m01 a * m10 b + m02 a * m20 b)
     (m00 a * m01 b + m01 a * m11 b + m02 a * m21 b)
     (m00 a * m02 b + m01 a * m12 b + m02 a * m22 b)
     (m10 a * m00 b + m11 a * m10 b + m12 a * m20 b)
     (m10 a * m01 b + m11 a * m11 b + m12 a * m21 b)
     (m10 a * m02 b + m11 a * m12 b + m12 a * m22 b)
     (m20 a * m00 b + m21 a * m10 b + m22 a * m20 b)
     (m20 a * m01 b + m21 a * m11 b + m22 a * m21 b)
     (m20 a * m02 b + m21 a * m12 b + m22 a * m22 b)"

text \<open>
  Eigen inverts a fixed 3x3 matrix by cofactors: entry \<open>(i, j)\<close> of the inverse is the
  cofactor \<open>(j, i)\<close> times \<open>1 / det\<close>, the determinant being the first column times its
  cofactors. With a zero determinant the entries are not real numbers.
\<close>

definition cofactor :: "Matrix3d \<Rightarrow> nat \<Rightarrow> nat \<Rightarrow> real" where
  "cofactor m i j =
     coeff m ((i + 1) mod 3) ((j + 1) mod 3) * coeff m ((i + 2) mod 3) ((j + 2) mod 3)
     - coeff m ((i + 1) mod 3) ((j + 2) mod 3) * coeff m ((i + 2) mod 3) ((j + 1) mod 3)"

definition mat_det :: "Matrix3d \<Rightarrow> real" where
  "mat_det m = cofactor m 0 0 * m00 m + cofactor m 1 0 * m10 m + cofactor m 2 0 * m20 m"

definition mat_inverse :: "Matrix3d \<Rightarrow> Matrix3d option" where
  "mat_inverse m =
     (if mat_det m = 0 then None
      else let invdet = 1 / mat_det m in
        Some (Matrix3d
          (cofactor m 0 0 * invdet) (cofactor m 1 0 * invdet) (cofactor m 2 0 * invdet)
          (cofactor m 0 1 * invdet) (cofactor m 1 1 * invdet) (cofactor m 2 1 * invdet)
          (cofactor m 0 2 * invdet) (cofactor m 1 2 * invdet) (cofactor m 2 2 * invdet)))"

text \<open>
  The quaternion product of Eigen, and the conjugate.
\<close>

definition quat_mul :: "Quaterniond \<Rightarrow> Quaterniond \<Rightarrow> Quaterniond" where
  "quat_mul a b = Quaterniond
     (qw a * qw b - qx a * qx b - qy a * qy b - qz a * qz b)
     (qw a * qx b + qx a * qw b + qy a * qz b - qz a * qy b)
     (qw a * qy b + qy a * qw b + qz a * qx b - qx a * qz b)
     (qw a * qz b + qz a * qw b + qx a * qy b - qy a * qx b)"

definition quat_conjugate :: "Quaterniond \<Rightarrow> Quaterniond" where
  "quat_conjugate a = Quaterniond (qw a) (- qx a) (- qy a) (- qz a)"

definition quat_vec :: "Quaterniond \<Rightarrow> Vector3d" where
  "quat_vec a = Vector3d (qx a) (qy a) (qz a)"

definition quat_norm2 :: "Quaterniond \<Rightarrow> real" where
  "quat_norm2 q = qw q * qw q + qx q * qx q + qy q * qy q + qz q * qz q"

text \<open>
  Writing coefficient \<open>i\<close> of a quaternion: Eigen stores the coefficients in the order
  \<open>x, y, z, w\<close>.
\<close>

definition set_coeff :: "Quaterniond \<Rightarrow> nat \<Rightarrow> real \<Rightarrow> Quaterniond" where
  "set_coeff q i v =
     (if i = 0 then Quaterniond (qw q) v (qy q) (qz q)
      else if i = 1 then Quaterniond (qw q) (qx q) v (qz q)
      else if i = 2 then Quaterniond (qw q) (qx q) (qy q) v
      else Quaterniond v (qx q) (qy q) (qz q))"

text \<open>
  \<open>Quaterniond(const Matrix3d&)\<close>: with a positive trace the scalar part comes from the
  trace, otherwise the largest diagonal entry picks the component computed from a square
  root.
\<close>

definition Quaterniond_of_matrix :: "Matrix3d \<Rightarrow> Quaterniond" where
  "Quaterniond_of_matrix mat =
     (let t = mat_trace mat in
      if t > 0 then
        (let t1 = sqrt (t + 1);
             w = (1 / 2) * t1;
             t2 = (1 / 2) / t1
         in Quaterniond w
              ((m21 mat - m12 mat) * t2)
              ((m02 mat - m20 mat) * t2)
              ((m10 mat - m01 mat) * t2))
      else
        (let i0 = (if m11 mat > m00 mat then 1 else 0);
             i = (if m22 mat > coeff mat i0 i0 then 2 else i0);
             j = (i + 1) mod 3;
             k = (j + 1) mod 3;
             t1 = sqrt (coeff mat i i - coeff mat j j - coeff mat k k + 1);
             t2 = (1 / 2) / t1;
             q1 = set_coeff (Quaterniond 0 0 0 0) i ((1 / 2) * t1);
             q2 = set_coeff q1 3 ((coeff mat k j - coeff mat j k) * t2);
             q3 = set_coeff q2 j ((coeff mat j i + coeff mat i j) * t2)
         in set_coeff q3 k ((coeff mat k i + coeff mat i k) * t2)))"

text \<open>\<open>toRotationMatrix\<close>: the rotation matrix of a unit quaternion.\<close>

definition toRotationMatrix :: "Quaterniond \<Rightarrow> Matrix3d" where
  "toRotationMatrix q =
     (let tx = 2 * qx q; ty = 2 * qy q; tz = 2 * qz q;
          twx = tx * qw q; twy = ty * qw q; twz = tz * qw q;
          txx = tx * qx q; txy = ty * qx q; txz = tz * qx q;
          tyy = ty * qy q; tyz = tz * qy q; tzz = tz * qz q
      in Matrix3d
           (1 - (tyy + tzz)) (txy - twz) (txz + twy)
           (txy + twz) (1 - (txx + tzz)) (tyz - twx)
           (txz - twy) (tyz + twx) (1 - (txx + tyy)))"

text \<open>\<open>atan2\<close> of the C library, on the reals.\<close>

definition atan2 :: "real \<Rightarrow> real \<Rightarrow> real" where
  "atan2 y x =
     (if x > 0 then arctan (y / x)
      else if x < 0 then (if y \<ge> 0 then arctan (y / x) + pi else arctan (y / x) - pi)
      else if y > 0 then pi / 2
      else if y < 0 then - (pi / 2)
      else 0)"

text \<open>
  \<open>AngleAxisd\<close> from a quaternion: the norm of the vector part decides. A zero vector part
  gives the angle \<open>0\<close> about the x axis; otherwise the angle is taken in \<open>[0, pi]\<close> and the
  axis is the vector part, normalised and turned round when the scalar part is negative.
  (\<open>stableNorm\<close>, taken when the norm is below the machine epsilon, is the same number on
  the reals.)
\<close>

record AngleAxisd =
  angle :: real
  axis :: Vector3d

definition AngleAxisd_of_quaternion :: "Quaterniond \<Rightarrow> AngleAxisd" where
  "AngleAxisd_of_quaternion q =
     (let n = vec_norm (quat_vec q) in
      if n \<noteq> 0 then
        \<lparr> angle = 2 * atan2 n \<bar>qw q\<bar>,
          axis = vec_div (quat_vec q) (if qw q < 0 then - n else n) \<rparr>
      else \<lparr> angle = 0, axis = Vector3d 1 0 0 \<rparr>)"

text \<open>\<open>AngleAxisd(const Matrix3d&)\<close> goes through the quaternion of the matrix.\<close>

definition AngleAxisd_of_matrix :: "Matrix3d \<Rightarrow> AngleAxisd" where
  "AngleAxisd_of_matrix mat = AngleAxisd_of_quaternion (Quaterniond_of_matrix mat)"

section \<open>Decimal text of an int\<close>

text \<open>
  \<open>std::to_string(int)\<close>: the decimal digits, after a minus sign for a negative number.
  It is given the value \<open>sint v\<close> of an \<open>int\<close>.
\<close>

definition digit_char :: "nat \<Rightarrow> char" where
  "digit_char d = char_of (48 + d)"

function digits_of :: "nat \<Rightarrow> string" where
  "digits_of n =
     (if n < 10 then [digit_char n] else digits_of (n div 10) @ [digit_char (n mod 10)])"
  by pat_completeness auto
termination
  by (relation "measure id") auto

definition to_string :: "int \<Rightarrow> string" where
  "to_string v = (if v < 0 then CHR ''-'' # digits_of (nat (- v)) else digits_of (nat v))"

section \<open>The problem construction info of trajopt\<close>

datatype TermType = TT_COST | TT_CNT

datatype PenaltyType = SQUARED | ABS | HINGE

datatype InitInfoType = STATIONARY | JOINT_INTERPOLATED | GIVEN_TRAJ

text \<open>
  The term infos, each with the fields this file assigns. \<open>createSafetyMarginDataVector\<close>
  belongs to trajopt: the collision info keeps the three arguments of its call.
\<close>

record JointConstraintInfo =
  jc_term_type :: TermType
  jc_timestep :: c_int
  jc_name :: string
  jc_vals :: "real list"

record JointVelTermInfo =
  jv_coeffs :: "real list"
  jv_name :: string
  jv_term_type :: TermType
  jv_first_step :: c_int
  jv_last_step :: c_int
  jv_joint_name :: string
  jv_penalty_type :: PenaltyType

datatype SafetyMarginDataVector = createSafetyMarginDataVector c_int real real

record CollisionCostInfo =
  cc_name :: string
  cc_term_type :: TermType
  cc_continuous :: bool
  cc_first_step :: c_int
  cc_last_step :: c_int
  cc_gap :: c_int
  cc_info :: SafetyMarginDataVector

record StaticPoseCostInfo =
  sp_term_type :: TermType
  sp_link :: string
  sp_timestep :: c_int
  sp_xyz :: "Vector3d option"
  sp_wxyz :: "Vector4d option"
  sp_pos_coeffs :: Vector3d
  sp_rot_coeffs :: Vector3d
  sp_name :: string

datatype TermInfo =
  JointConstraint JointConstraintInfo
| JointVel JointVelTermInfo
| Collision CollisionCostInfo
| StaticPose StaticPoseCostInfo

section \<open>The environment and the kinematics\<close>

text \<open>
  The tesseract environment and the manipulator's kinematics are read only; each is the
  record of what its queries answer. \<open>getCurrentJointValues\<close> is the query without
  argument (every joint of the robot), \<open>getCurrentJointValuesOf\<close> the one that takes a
  manipulator's name. \<open>calcFwdKin\<close> answers its \<open>bool\<close> together with what the call leaves
  in the pose it was given to fill.
\<close>

record EnvState =
  transforms :: "string \<rightharpoonup> Affine3d"

record BasicKin =
  getJointNames :: "string list"
  getName :: string
  getBaseLinkName :: string
  calcFwdKin :: "Affine3d \<Rightarrow> real list \<Rightarrow> string \<Rightarrow> EnvState \<Rightarrow> bool \<times> Affine3d"

record BasicEnv =
  getCurrentJointValues :: "real list"
  getCurrentJointValuesOf :: "string \<Rightarrow> real list"
  getState :: EnvState
  getManipulator :: "string \<Rightarrow> BasicKin"

record ProblemConstructionInfo =
  n_steps :: c_int
  start_fixed :: bool
  manip :: string
  kin :: BasicKin
  init_type :: InitInfoType
  init_data :: "real list"
  cnt_infos :: "TermInfo list"
  cost_infos :: "TermInfo list"

section \<open>TrajoptPickAndPlaceConstructor\<close>

text \<open>
  The members \<open>env_\<close>, \<open>manipulator_\<close>, \<open>ee_link_\<close>, \<open>pick_object_\<close>, \<open>tcp_\<close> and \<open>kin_\<close>.
  The index of the loop over the joint names is a \<open>size_t\<close> below the length of a list: a
  natural number.
\<close>

record Constructor =
  this_env :: BasicEnv
  this_manipulator :: string
  this_ee_link :: string
  this_pick_object :: string
  this_tcp :: Affine3d
  this_kin :: BasicKin

definition TrajoptPickAndPlaceConstructor ::
  "BasicEnv \<Rightarrow> string \<Rightarrow> string \<Rightarrow> string \<Rightarrow> Affine3d \<Rightarrow> Constructor" where
  "TrajoptPickAndPlaceConstructor env manipulator ee_link pick_object tcp =
     \<lparr> this_env = env, this_manipulator = manipulator, this_ee_link = ee_link,
       this_pick_object = pick_object, this_tcp = tcp,
       this_kin = getManipulator env manipulator \<rparr>"

definition addInitialJointPosConstraint ::
  "Constructor \<Rightarrow> ProblemConstructionInfo \<Rightarrow> ProblemConstructionInfo" where
  "addInitialJointPosConstraint this pci =
     (let start_joint_pos = getCurrentJointValues (this_env this);
          start_constraint = \<lparr> jc_term_type = TT_CNT, jc_timestep = 0,
            jc_name = ''start_pos_constraint'', jc_vals = start_joint_pos \<rparr>
      in pci \<lparr> cnt_infos := cnt_infos pci @ [JointConstraint start_constraint] \<rparr>)"

text \<open>The velocity cost that one round of the loop of \<open>addJointVelCost\<close> fills in.\<close>

definition joint_vel_info :: "ProblemConstructionInfo \<Rightarrow> string \<Rightarrow> JointVelTermInfo" where
  "joint_vel_info pci joint_name =
     \<lparr> jv_coeffs = replicate 1 5, jv_name = joint_name @ ''_vel'',
       jv_term_type = TT_COST, jv_first_step = 0, jv_last_step = n_steps pci - 1,
       jv_joint_name = joint_name, jv_penalty_type = SQUARED \<rparr>"

function addJointVelCost_loop ::
  "string list \<Rightarrow> nat \<Rightarrow> ProblemConstructionInfo \<Rightarrow> ProblemConstructionInfo" where
  "addJointVelCost_loop joint_names i pci =
     (if i < length joint_names then
        addJointVelCost_loop joint_names (i + 1)
          (pci \<lparr> cost_infos := cost_infos pci
                   @ [JointVel (joint_vel_info pci (joint_names ! i))] \<rparr>)
      else pci)"
  by pat_completeness auto
termination
  by (relation "measure (\<lambda>(joint_names, i, pci). length joint_names - i)") auto

definition addJointVelCost ::
  "Constructor \<Rightarrow> ProblemConstructionInfo \<Rightarrow> real \<Rightarrow> ProblemConstructionInfo" where
  "addJointVelCost this pci coeff_arg =
     addJointVelCost_loop (getJointNames (this_kin this)) 0 pci"

definition addCollisionCost ::
  "Constructor \<Rightarrow> ProblemConstructionInfo \<Rightarrow> real \<Rightarrow> real \<Rightarrow> c_int \<Rightarrow> c_int
     \<Rightarrow> ProblemConstructionInfo" where
  "addCollisionCost this pci dist_pen coeff_arg first_step last_step =
     (let collision = \<lparr> cc_name = ''collision'', cc_term_type = TT_COST,
            cc_continuous = False, cc_first_step = first_step, cc_last_step = last_step,
            cc_gap = 1,
            cc_info = createSafetyMarginDataVector (last_step - first_step + 1)
                        dist_pen coeff_arg \<rparr>
      in pci \<lparr> cost_infos := cost_infos pci @ [Collision collision] \<rparr>)"

text \<open>What \<open>addLinearMotion\<close> computes before its loop.\<close>

record LinearMotionLocals =
  xyz_delta :: "Vector3d option"
  approach_rotation :: Quaterniond
  angle_delta :: "real option"
  delta_axis :: "Vector3d option"

definition linear_motion_locals ::
  "Affine3d \<Rightarrow> Affine3d \<Rightarrow> c_int \<Rightarrow> LinearMotionLocals" where
  "linear_motion_locals start_pose end_pose num_steps =
     (let rotation_diff =
            map_option (\<lambda>start_inv. mat_mul start_inv (linear_part end_pose))
              (mat_inverse (linear_part start_pose));
          aa_rotation_diff = map_option AngleAxisd_of_matrix rotation_diff
      in \<lparr> xyz_delta =
             vec_div_int (vec_sub (translation end_pose) (translation start_pose))
               (num_steps - 1),
           approach_rotation = Quaterniond_of_matrix (linear_part start_pose),
           angle_delta =
             (case aa_rotation_diff of None \<Rightarrow> None
              | Some aa \<Rightarrow> div_int (angle aa) (num_steps - 1)),
           delta_axis = map_option axis aa_rotation_diff \<rparr>)"

text \<open>
  The pose constraint that one round of the loop fills in. The index \<open>i\<close> is converted to
  \<open>double\<close> where it multiplies one.
\<close>

definition pose_constraint ::
  "Constructor \<Rightarrow> Affine3d \<Rightarrow> LinearMotionLocals \<Rightarrow> c_int \<Rightarrow> c_int
     \<Rightarrow> StaticPoseCostInfo" where
  "pose_constraint this start_pose loc first_time_step i =
     (let rotation_delta =
            (case (angle_delta loc, delta_axis loc) of
               (Some ad, Some ax) \<Rightarrow>
                 Some (Quaterniond (cos ((1 / 2) * ad * real_of_int (sint i)))
                         (vx ax * sin ((1 / 2) * ad * real_of_int (sint i)))
                         (vy ax * sin ((1 / 2) * ad * real_of_int (sint i)))
                         (vz ax * sin ((1 / 2) * ad * real_of_int (sint i))))
             | _ \<Rightarrow> None);
          rotation = map_option (\<lambda>rd. quat_mul rd (approach_rotation loc)) rotation_delta
      in \<lparr> sp_term_type = TT_CNT,
           sp_link = this_ee_link this,
           sp_timestep = i + first_time_step,
           sp_xyz = map_option
                      (\<lambda>d. vec_add (translation start_pose) (vec_scale d (real_of_int (sint i))))
                      (xyz_delta loc),
           sp_wxyz = map_option (\<lambda>r. Vector4d (qw r) (qx r) (qy r) (qz r)) rotation,
           sp_pos_coeffs = Vector3d 10 10 10,
           sp_rot_coeffs = Vector3d 10 10 10,
           sp_name = ''pose_'' @ to_string (sint (i + first_time_step)) \<rparr>)"

text \<open>
  The loop \<open>for (int i = 0; i < num_steps; i++)\<close>. It ends: below \<open>num_steps\<close> the
  increment does not wrap.
\<close>

function addLinearMotion_loop ::
  "Constructor \<Rightarrow> Affine3d \<Rightarrow> LinearMotionLocals \<Rightarrow> c_int \<Rightarrow> c_int \<Rightarrow> c_int
     \<Rightarrow> ProblemConstructionInfo \<Rightarrow> ProblemConstructionInfo" where
  "addLinearMotion_loop this start_pose loc num_steps first_time_step i pci =
     (if i <s num_steps then
        addLinearMotion_loop this start_pose loc num_steps first_time_step (i + 1)
          (pci \<lparr> cnt_infos := cnt_infos pci
                   @ [StaticPose (pose_constraint this start_pose loc first_time_step i)] \<rparr>)
      else pci)"
  by pat_completeness auto
termination
proof (relation "measure (\<lambda>(this, start_pose, loc, num_steps, first_time_step, i, pci).
        nat (sint num_steps - sint i))")
  show "wf (measure (\<lambda>(this, start_pose, loc, num_steps, first_time_step, i, pci).
        nat (sint num_steps - sint i)))"
    by simp
next
  fix this :: Constructor and start_pose :: Affine3d and loc :: LinearMotionLocals
    and num_steps first_time_step i :: c_int and pci :: ProblemConstructionInfo
  assume "i <s num_steps"
  then have below: "sint i < sint num_steps"
    by (simp add: word_sless_alt)
  have "sint num_steps < 2 ^ 31"
    using sint_lt [of num_steps] by simp
  moreover have "- (2 ^ 31) \<le> sint i"
    using sint_ge [of i] by simp
  ultimately have "signed_take_bit 31 (sint i + 1) = sint i + 1"
    using below by (intro signed_take_bit_int_eq_self) simp_all
  then have "sint (i + 1) = sint i + 1"
    by (simp add: sint_word_ariths)
  then show "((this, start_pose, loc, num_steps, first_time_step, i + 1,
        pci \<lparr> cnt_infos := cnt_infos pci
                @ [StaticPose (pose_constraint this start_pose loc first_time_step i)] \<rparr>),
       (this, start_pose, loc, num_steps, first_time_step, i, pci))
      \<in> measure (\<lambda>(this, start_pose, loc, num_steps, first_time_step, i, pci).
        nat (sint num_steps - sint i))"
    using below by simp
qed

definition addLinearMotion ::
  "Constructor \<Rightarrow> ProblemConstructionInfo \<Rightarrow> Affine3d \<Rightarrow> Affine3d \<Rightarrow> c_int \<Rightarrow> c_int
     \<Rightarrow> ProblemConstructionInfo" where
  "addLinearMotion this pci start_pose end_pose num_steps first_time_step =
     addLinearMotion_loop this start_pose
       (linear_motion_locals start_pose end_pose num_steps)
       num_steps first_time_step 0 pci"

text \<open>
  Both generators end in \<open>ConstructProblem(pci)\<close>, which is trajopt's: the embedding
  returns the \<open>pci\<close> handed to it.
\<close>

definition generatePickProblem ::
  "Constructor \<Rightarrow> Affine3d \<Rightarrow> Affine3d \<Rightarrow> c_int \<Rightarrow> ProblemConstructionInfo" where
  "generatePickProblem this approach_pose final_pose steps_per_phase =
     (let pci0 = \<lparr> n_steps = steps_per_phase * 2, start_fixed = False,
            manip = this_manipulator this, kin = this_kin this,
            init_type = STATIONARY,
            init_data = getCurrentJointValuesOf (this_env this) (getName (this_kin this)),
            cnt_infos = [], cost_infos = [] \<rparr>;
          pci1 = addJointVelCost this pci0 5;
          pci2 = addInitialJointPosConstraint this pci1;
          pci3 = addLinearMotion this pci2 approach_pose final_pose
                   steps_per_phase steps_per_phase
      in addCollisionCost this pci3 (25 / 1000) 20 0 steps_per_phase)"

text \<open>
  \<open>transforms.at(...)\<close> throws \<open>std::out_of_range\<close> when the state has no transform for the
  base link. The \<open>bool\<close> that \<open>calcFwdKin\<close> returns is not read.
\<close>

datatype error = OutOfRange

definition generatePlaceProblem ::
  "Constructor \<Rightarrow> Affine3d \<Rightarrow> Affine3d \<Rightarrow> Affine3d \<Rightarrow> c_int
     \<Rightarrow> error + ProblemConstructionInfo" where
  "generatePlaceProblem this retreat_pose approach_pose final_pose steps_per_phase =
     (let pci0 = \<lparr> n_steps = steps_per_phase * 3, start_fixed = False,
            manip = this_manipulator this, kin = this_kin this,
            init_type = STATIONARY,
            init_data = getCurrentJointValuesOf (this_env this) (getName (this_kin this)),
            cnt_infos = [], cost_infos = [] \<rparr>;
          pci1 = addJointVelCost this pci0 5;
          pci2 = addInitialJointPosConstraint this pci1
      in case transforms (getState (this_env this)) (getBaseLinkName (this_kin this)) of
           None \<Rightarrow> Inl OutOfRange
         | Some change_base \<Rightarrow>
             (let start_pose = snd (calcFwdKin (kin pci2) change_base
                                      (getCurrentJointValues (this_env this))
                                      (this_ee_link this) (getState (this_env this)));
                  pci3 = addLinearMotion this pci2 start_pose retreat_pose steps_per_phase 0;
                  pci4 = addLinearMotion this pci3 approach_pose final_pose
                           steps_per_phase (steps_per_phase * 2)
              in Inr (addCollisionCost this pci4 (25 / 1000) 20
                        steps_per_phase (steps_per_phase * 2 - 1))))"

section \<open>Reading an assembled problem\<close>

text \<open>The terms of one kind in a list of term infos, in the order of the list.\<close>

fun pose_terms :: "TermInfo list \<Rightarrow> StaticPoseCostInfo list" where
  "pose_terms [] = []"
| "pose_terms (StaticPose p # ts) = p # pose_terms ts"
| "pose_terms (t # ts) = pose_terms ts"

fun joint_constraint_terms :: "TermInfo list \<Rightarrow> JointConstraintInfo list" where
  "joint_constraint_terms [] = []"
| "joint_constraint_terms (JointConstraint c # ts) = c # joint_constraint_terms ts"
| "joint_constraint_terms (t # ts) = joint_constraint_terms ts"

fun joint_vel_terms :: "TermInfo list \<Rightarrow> JointVelTermInfo list" where
  "joint_vel_terms [] = []"
| "joint_vel_terms (JointVel v # ts) = v # joint_vel_terms ts"
| "joint_vel_terms (t # ts) = joint_vel_terms ts"

fun collision_terms :: "TermInfo list \<Rightarrow> CollisionCostInfo list" where
  "collision_terms [] = []"
| "collision_terms (Collision c # ts) = c # collision_terms ts"
| "collision_terms (t # ts) = collision_terms ts"

text \<open>
  A problem construction info that has no term yet, and the pose constraints that
  \<open>addLinearMotion\<close> adds to it: the linear segment of a start pose, an end pose, a
  number of steps and a first time step.
\<close>

definition fresh_pci :: "Constructor \<Rightarrow> ProblemConstructionInfo" where
  "fresh_pci this =
     \<lparr> n_steps = 0, start_fixed = False, manip = this_manipulator this,
       kin = this_kin this, init_type = STATIONARY, init_data = [],
       cnt_infos = [], cost_infos = [] \<rparr>"

definition linear_segment ::
  "Constructor \<Rightarrow> Affine3d \<Rightarrow> Affine3d \<Rightarrow> c_int \<Rightarrow> c_int \<Rightarrow> StaticPoseCostInfo list" where
  "linear_segment this start_pose end_pose num_steps first_time_step =
     pose_terms (cnt_infos
       (addLinearMotion this (fresh_pci this) start_pose end_pose num_steps first_time_step))"

definition joint_vel_costs :: "Constructor \<Rightarrow> c_int \<Rightarrow> real \<Rightarrow> JointVelTermInfo list" where
  "joint_vel_costs this steps coeff_arg =
     joint_vel_terms (cost_infos
       (addJointVelCost this ((fresh_pci this) \<lparr> n_steps := steps \<rparr>) coeff_arg))"

text \<open>The quaternion that a \<open>wxyz\<close> vector holds, and the angle between two orientations
  as Eigen's \<open>angularDistance\<close> measures it.\<close>

definition quat_of_wxyz :: "Vector4d \<Rightarrow> Quaterniond" where
  "quat_of_wxyz v = Quaterniond (v4_0 v) (v4_1 v) (v4_2 v) (v4_3 v)"

definition wxyz_of_quat :: "Quaterniond \<Rightarrow> Vector4d" where
  "wxyz_of_quat q = Vector4d (qw q) (qx q) (qy q) (qz q)"

definition angularDistance :: "Quaterniond \<Rightarrow> Quaterniond \<Rightarrow> real" where
  "angularDistance a b =
     (let d = quat_mul a (quat_conjugate b)
      in 2 * atan2 (vec_norm (quat_vec d)) \<bar>qw d\<bar>)"

section \<open>A small cell\<close>

text \<open>
  A robot of three joints whose manipulator has two of them, for the concrete instances
  below. The flag is what \<open>calcFwdKin\<close> returns.
\<close>

definition identity_pose :: Affine3d where
  "identity_pose = \<lparr> linear_part = Matrix3d 1 0 0 0 1 0 0 0 1, translation = Vector3d 0 0 0 \<rparr>"

definition demo_kin :: "bool \<Rightarrow> BasicKin" where
  "demo_kin ok =
     \<lparr> getJointNames = [''joint_a'', ''joint_b''], getName = ''manipulator'',
       getBaseLinkName = ''base_link'',
       calcFwdKin = (\<lambda>change_base joint_angles link_name state. (ok, identity_pose)) \<rparr>"

definition demo_env :: "bool \<Rightarrow> BasicEnv" where
  "demo_env ok =
     \<lparr> getCurrentJointValues = [0, 1, 2],
       getCurrentJointValuesOf = (\<lambda>name. if name = ''manipulator'' then [0, 1] else []),
       getState = \<lparr> transforms = [''base_link'' \<mapsto> identity_pose] \<rparr>,
       getManipulator = (\<lambda>name. demo_kin ok) \<rparr>"

definition demo_this :: "bool \<Rightarrow> Constructor" where
  "demo_this ok =
     TrajoptPickAndPlaceConstructor (demo_env ok) ''manipulator'' ''tool0'' ''box'' identity_pose"

text \<open>A half turn about x, a quarter turn about z (one unit along x), as poses.\<close>

definition half_turn_x :: Affine3d where
  "half_turn_x =
     \<lparr> linear_part = Matrix3d 1 0 0 0 (- 1) 0 0 0 (- 1), translation = Vector3d 0 0 0 \<rparr>"

definition quarter_turn_z :: Affine3d where
  "quarter_turn_z =
     \<lparr> linear_part = Matrix3d 0 (- 1) 0 1 0 0 0 0 1, translation = Vector3d 1 0 0 \<rparr>"

section \<open>The loops in closed form\<close>

declare addLinearMotion_loop.simps [simp del]
declare addJointVelCost_loop.simps [simp del]
declare digits_of.simps [simp del]

lemma sint_index:
  assumes "0 \<le> j" "j < 2 ^ 31"
  shows "sint (word_of_int j :: c_int) = j"
proof -
  have "signed_take_bit 31 j = j"
    using assms by (intro signed_take_bit_int_eq_self) simp_all
  then show ?thesis
    by (simp add: sint_sbintrunc')
qed

lemma sint_increment:
  assumes "i <s (n :: c_int)"
  shows "sint (i + 1) = sint i + 1"
proof -
  have below: "sint i < sint n"
    using assms by (simp add: word_sless_alt)
  have "sint n < 2 ^ 31"
    using sint_lt [of n] by simp
  moreover have "- (2 ^ 31) \<le> sint i"
    using sint_ge [of i] by simp
  ultimately have "signed_take_bit 31 (sint i + 1) = sint i + 1"
    using below by (intro signed_take_bit_int_eq_self) simp_all
  then show ?thesis
    by (simp add: sint_word_ariths)
qed

lemma sint_bounds: "- 2147483648 \<le> sint (w :: c_int)" "sint (w :: c_int) \<le> 2147483647"
  using sint_ge [of w] sint_lt [of w] by simp_all

lemma sint_add_no_overflow:
  assumes "- 2147483648 \<le> sint a + sint b" "sint a + sint b \<le> 2147483647"
  shows "sint (a + b :: c_int) = sint a + sint b"
proof -
  have "signed_take_bit 31 (sint a + sint b) = sint a + sint b"
    using assms by (intro signed_take_bit_int_eq_self) simp_all
  then show ?thesis
    by (simp add: sint_word_ariths)
qed

lemma sint_diff_no_overflow:
  assumes "- 2147483648 \<le> sint a - sint b" "sint a - sint b \<le> 2147483647"
  shows "sint (a - b :: c_int) = sint a - sint b"
proof -
  have "signed_take_bit 31 (sint a - sint b) = sint a - sint b"
    using assms by (intro signed_take_bit_int_eq_self) simp_all
  then show ?thesis
    by (simp add: sint_word_ariths)
qed

lemma sint_mult_no_overflow:
  assumes "- 2147483648 \<le> sint a * sint b" "sint a * sint b \<le> 2147483647"
  shows "sint (a * b :: c_int) = sint a * sint b"
proof -
  have "signed_take_bit 31 (sint a * sint b) = sint a * sint b"
    using assms by (intro signed_take_bit_int_eq_self) simp_all
  then show ?thesis
    by (simp add: sint_word_ariths)
qed

lemma word_of_sint: "word_of_int (sint w) = (w :: c_int)"
  by simp

lemma addLinearMotion_loop_eq:
  "addLinearMotion_loop this sp loc n f i pci =
     pci \<lparr> cnt_infos := cnt_infos pci
             @ map (\<lambda>j. StaticPose (pose_constraint this sp loc f (word_of_int j)))
                 [sint i..sint n - 1] \<rparr>"
proof (induction this sp loc n f i pci rule: addLinearMotion_loop.induct)
  case (1 this sp loc n f i pci)
  show ?case
  proof (cases "i <s n")
    case True
    then have lt: "sint i < sint n"
      by (simp add: word_sless_alt)
    then have u: "[sint i..sint n - 1] = sint i # [sint i + 1..sint n - 1]"
      by (simp add: upto_rec1)
    show ?thesis
      using True "1.IH" [OF True]
      by (subst addLinearMotion_loop.simps) (simp add: u sint_increment [OF True])
  next
    case False
    then have "\<not> sint i < sint n"
      by (simp add: word_sless_alt)
    then show ?thesis
      using False by (subst addLinearMotion_loop.simps) simp
  qed
qed

lemma addJointVelCost_loop_eq:
  "addJointVelCost_loop names i pci =
     pci \<lparr> cost_infos := cost_infos pci
             @ map (\<lambda>nm. JointVel (joint_vel_info pci nm)) (drop i names) \<rparr>"
proof (induction names i pci rule: addJointVelCost_loop.induct)
  case (1 names i pci)
  show ?case
  proof (cases "i < length names")
    case True
    then have d: "drop i names = names ! i # drop (i + 1) names"
      by (simp add: Cons_nth_drop_Suc)
    show ?thesis
      using True "1.IH" [OF True]
      by (subst addJointVelCost_loop.simps) (simp add: d joint_vel_info_def)
  next
    case False
    then show ?thesis
      by (subst addJointVelCost_loop.simps) simp
  qed
qed

lemma pose_terms_append: "pose_terms (xs @ ys) = pose_terms xs @ pose_terms ys"
  by (induction xs rule: pose_terms.induct) simp_all

lemma pose_terms_StaticPose: "pose_terms (map StaticPose ps) = ps"
  by (induction ps) simp_all

lemma pose_terms_map_pose: "pose_terms (map (\<lambda>j. StaticPose (g j)) js) = map g js"
  by (induction js) simp_all

lemma joint_vel_terms_append:
  "joint_vel_terms (xs @ ys) = joint_vel_terms xs @ joint_vel_terms ys"
  by (induction xs rule: joint_vel_terms.induct) simp_all

lemma joint_vel_terms_map_vel: "joint_vel_terms (map (\<lambda>j. JointVel (g j)) js) = map g js"
  by (induction js) simp_all

lemma joint_vel_terms_JointVel: "joint_vel_terms (map JointVel vs) = vs"
  by (induction vs) simp_all

lemma collision_terms_append:
  "collision_terms (xs @ ys) = collision_terms xs @ collision_terms ys"
  by (induction xs rule: collision_terms.induct) simp_all

lemma collision_terms_JointVel: "collision_terms (map JointVel vs) = []"
  by (induction vs) simp_all

lemma joint_constraint_terms_StaticPose: "joint_constraint_terms (map StaticPose ps) = []"
  by (induction ps) simp_all

lemma linear_segment_eq:
  "linear_segment this s e n f =
     map (\<lambda>j. pose_constraint this s (linear_motion_locals s e n) f (word_of_int j))
       [0..sint n - 1]"
  by (simp add: linear_segment_def addLinearMotion_def addLinearMotion_loop_eq
      fresh_pci_def pose_terms_map_pose)

lemma addLinearMotion_eq:
  "addLinearMotion this pci s e n f =
     pci \<lparr> cnt_infos := cnt_infos pci @ map StaticPose (linear_segment this s e n f) \<rparr>"
  by (simp add: linear_segment_eq addLinearMotion_def addLinearMotion_loop_eq)

lemma joint_vel_costs_eq:
  "joint_vel_costs this steps c =
     map (joint_vel_info ((fresh_pci this) \<lparr> n_steps := steps \<rparr>)) (getJointNames (this_kin this))"
  by (simp add: joint_vel_costs_def addJointVelCost_def addJointVelCost_loop_eq
      fresh_pci_def joint_vel_terms_map_vel)

lemma addJointVelCost_eq:
  "addJointVelCost this pci c =
     pci \<lparr> cost_infos := cost_infos pci
             @ map JointVel (joint_vel_costs this (n_steps pci) c) \<rparr>"
  by (simp add: joint_vel_costs_eq addJointVelCost_def addJointVelCost_loop_eq
      joint_vel_info_def fresh_pci_def)

lemma map_add_upto: "map (\<lambda>j. j + f) [i..n] = [i + f..n + f]"
proof (induction "nat (n + 1 - i)" arbitrary: i)
  case 0
  then show ?case by simp
next
  case (Suc k)
  then have le: "i \<le> n" and k: "k = nat (n + 1 - (i + 1))"
    by linarith+
  have "map (\<lambda>j. j + f) [i..n] = (i + f) # map (\<lambda>j. j + f) [i + 1..n]"
    using le by (simp add: upto_rec1)
  also have "\<dots> = (i + f) # [i + 1 + f..n + f]"
    using Suc.hyps(1) [OF k] by simp
  also have "\<dots> = [i + f..n + f]"
  proof -
    have "i + f \<le> n + f" using le by simp
    then have "[i + f..n + f] = (i + f) # [i + f + 1..n + f]"
      by (rule upto_rec1)
    moreover have "i + f + 1 = i + 1 + f" by simp
    ultimately show ?thesis by simp
  qed
  finally show ?case .
qed

lemma segment_timesteps_word:
  "map sp_timestep (linear_segment this s e n f)
     = map (\<lambda>j. word_of_int j + f) [0..sint n - 1]"
  by (simp add: linear_segment_eq pose_constraint_def Let_def comp_def)

lemma segment_timesteps:
  assumes "sint f + sint n - 1 \<le> INT_MAX"
  shows "map (sint \<circ> sp_timestep) (linear_segment this s e n f)
           = [sint f..sint f + sint n - 1]"
proof -
  have step: "sint (word_of_int j + f) = j + sint f" if "j \<in> set [0..sint n - 1]" for j
  proof -
    have j: "0 \<le> j" "j \<le> sint n - 1"
      using that by simp_all
    have "j < 2 ^ 31"
      using j(2) sint_bounds(2) [of n] by simp
    then have sj: "sint (word_of_int j :: c_int) = j"
      using j(1) by (intro sint_index) simp_all
    have "- 2147483648 \<le> j + sint f" "j + sint f \<le> 2147483647"
      using j assms sint_bounds(1) [of f] by (simp_all add: INT_MAX_def)
    then show ?thesis
      using sint_add_no_overflow [of "word_of_int j" f] by (simp add: sj)
  qed
  have "map (sint \<circ> sp_timestep) (linear_segment this s e n f)
      = map sint (map sp_timestep (linear_segment this s e n f))"
    by simp
  also have "\<dots> = map sint (map (\<lambda>j. word_of_int j + f) [0..sint n - 1])"
    unfolding segment_timesteps_word ..
  also have "\<dots> = map (\<lambda>j. sint (word_of_int j + f :: c_int)) [0..sint n - 1]"
    by (simp add: comp_def)
  also have "\<dots> = map (\<lambda>j. j + sint f) [0..sint n - 1]"
    using step by (intro map_cong refl) blast
  also have "\<dots> = [0 + sint f..sint n - 1 + sint f]"
    by (rule map_add_upto)
  also have "0 + sint f = sint f" by simp
  also have "sint n - 1 + sint f = sint f + sint n - 1" by simp
  finally show ?thesis .
qed

lemma segment_names:
  "map sp_name (linear_segment this s e n f) =
     map (\<lambda>t. ''pose_'' @ to_string t)
       (map (sint \<circ> sp_timestep) (linear_segment this s e n f))"
  by (simp add: linear_segment_eq pose_constraint_def Let_def comp_def)

lemma segment_length: "length (linear_segment this s e n f) = nat (sint n)"
  by (simp add: linear_segment_eq)

lemma generatePickProblem_eq:
  "generatePickProblem this a f k =
     \<lparr> n_steps = k * 2, start_fixed = False, manip = this_manipulator this,
       kin = this_kin this, init_type = STATIONARY,
       init_data = getCurrentJointValuesOf (this_env this) (getName (this_kin this)),
       cnt_infos =
         JointConstraint \<lparr> jc_term_type = TT_CNT, jc_timestep = 0,
             jc_name = ''start_pos_constraint'',
             jc_vals = getCurrentJointValues (this_env this) \<rparr>
         # map StaticPose (linear_segment this a f k k),
       cost_infos =
         map JointVel (joint_vel_costs this (k * 2) 5)
         @ [Collision \<lparr> cc_name = ''collision'', cc_term_type = TT_COST,
              cc_continuous = False, cc_first_step = 0, cc_last_step = k, cc_gap = 1,
              cc_info = createSafetyMarginDataVector (k + 1) (25 / 1000) 20 \<rparr>] \<rparr>"
  by (simp add: generatePickProblem_def addJointVelCost_eq addInitialJointPosConstraint_def
      addLinearMotion_eq addCollisionCost_def)

lemma generatePlaceProblem_eq:
  assumes "transforms (getState (this_env this)) (getBaseLinkName (this_kin this))
             = Some change_base"
  shows "generatePlaceProblem this r a f k =
     Inr \<lparr> n_steps = k * 3, start_fixed = False, manip = this_manipulator this,
       kin = this_kin this, init_type = STATIONARY,
       init_data = getCurrentJointValuesOf (this_env this) (getName (this_kin this)),
       cnt_infos =
         JointConstraint \<lparr> jc_term_type = TT_CNT, jc_timestep = 0,
             jc_name = ''start_pos_constraint'',
             jc_vals = getCurrentJointValues (this_env this) \<rparr>
         # map StaticPose
             (linear_segment this
                (snd (calcFwdKin (this_kin this) change_base
                        (getCurrentJointValues (this_env this)) (this_ee_link this)
                        (getState (this_env this))))
                r k 0
              @ linear_segment this a f k (k * 2)),
       cost_infos =
         map JointVel (joint_vel_costs this (k * 3) 5)
         @ [Collision \<lparr> cc_name = ''collision'', cc_term_type = TT_COST,
              cc_continuous = False, cc_first_step = k, cc_last_step = k * 2 - 1,
              cc_gap = 1,
              cc_info = createSafetyMarginDataVector k (25 / 1000) 20 \<rparr>] \<rparr>"
  using assms
  by (simp add: generatePlaceProblem_def addJointVelCost_eq addInitialJointPosConstraint_def
      addLinearMotion_eq addCollisionCost_def)

lemma generatePlaceProblem_missing:
  assumes "transforms (getState (this_env this)) (getBaseLinkName (this_kin this)) = None"
  shows "generatePlaceProblem this r a f k = Inl OutOfRange"
  using assms by (simp add: generatePlaceProblem_def)

section \<open>The decimal text of an int is one to one\<close>

lemma digit_char_inj:
  assumes "d < 10" "e < 10" "digit_char d = digit_char e"
  shows "d = e"
proof -
  have "(of_char (digit_char d) :: nat) = of_char (digit_char e)"
    using assms(3) by simp
  then have "(48 + d) mod 256 = (48 + e) mod 256"
    by (simp add: digit_char_def)
  then show ?thesis
    using assms(1,2) by simp
qed

lemma digit_char_not_minus: "d < 10 \<Longrightarrow> digit_char d \<noteq> CHR ''-''"
proof
  assume d: "d < 10" and eq: "digit_char d = CHR ''-''"
  have "(of_char (digit_char d) :: nat) = of_char (CHR ''-'')"
    using eq by simp
  then have "(48 + d) mod 256 = (45::nat)"
    by (simp add: digit_char_def)
  then show False
    using d by simp
qed

lemma digits_of_small: "n < 10 \<Longrightarrow> digits_of n = [digit_char n]"
  by (subst digits_of.simps) simp

lemma digits_of_large:
  "\<not> n < 10 \<Longrightarrow> digits_of n = digits_of (n div 10) @ [digit_char (n mod 10)]"
  by (subst digits_of.simps) simp

lemma digits_of_not_Nil: "digits_of n \<noteq> []"
  by (cases "n < 10") (simp_all add: digits_of_small digits_of_large)

lemma digits_of_no_minus: "CHR ''-'' \<notin> set (digits_of n)"
proof (induction n rule: digits_of.induct)
  case (1 n)
  show ?case
  proof (cases "n < 10")
    case True
    then show ?thesis
      using digit_char_not_minus [of n] by (auto simp add: digits_of_small)
  next
    case False
    have "n mod 10 < 10" by simp
    then have "digit_char (n mod 10) \<noteq> CHR ''-''"
      by (rule digit_char_not_minus)
    then show ?thesis
      using False "1.IH" [OF False] by (auto simp add: digits_of_large)
  qed
qed

lemma digits_of_inj: "digits_of a = digits_of b \<Longrightarrow> a = b"
proof (induction a arbitrary: b rule: digits_of.induct)
  case (1 a)
  show ?case
  proof (cases "a < 10")
    case a: True
    show ?thesis
    proof (cases "b < 10")
      case True
      then show ?thesis
        using a "1.prems" digit_char_inj [of a b] by (simp add: digits_of_small)
    next
      case False
      then show ?thesis
        using a "1.prems" digits_of_not_Nil [of "b div 10"]
        by (simp add: digits_of_small digits_of_large)
    qed
  next
    case a: False
    show ?thesis
    proof (cases "b < 10")
      case True
      then show ?thesis
        using a "1.prems" digits_of_not_Nil [of "a div 10"]
        by (simp add: digits_of_small digits_of_large)
    next
      case False
      from a False "1.prems"
      have e: "digits_of (a div 10) = digits_of (b div 10)"
        and l: "digit_char (a mod 10) = digit_char (b mod 10)"
        by (simp_all add: digits_of_large)
      have "a div 10 = b div 10"
        using "1.IH" [OF a e] .
      moreover have "a mod 10 = b mod 10"
        using l digit_char_inj [of "a mod 10" "b mod 10"] by simp
      ultimately show ?thesis
        by (metis div_mult_mod_eq)
    qed
  qed
qed

lemma to_string_inj: "to_string a = to_string b \<Longrightarrow> a = b"
proof -
  assume eq: "to_string a = to_string b"
  have hdn: "hd (digits_of n) \<noteq> CHR ''-''" for n
    using digits_of_no_minus [of n] digits_of_not_Nil [of n]
    by (cases "digits_of n") auto
  show ?thesis
  proof (cases "a < 0")
    case a: True
    show ?thesis
    proof (cases "b < 0")
      case True
      then have "digits_of (nat (- a)) = digits_of (nat (- b))"
        using a eq by (simp add: to_string_def)
      then have "nat (- a) = nat (- b)" by (rule digits_of_inj)
      then show ?thesis using a True by simp
    next
      case False
      then have "CHR ''-'' = hd (digits_of (nat b))"
        using a eq by (simp add: to_string_def) (metis list.sel(1))
      then show ?thesis using hdn [of "nat b"] by simp
    qed
  next
    case a: False
    show ?thesis
    proof (cases "b < 0")
      case True
      then have "hd (digits_of (nat a)) = CHR ''-''"
        using a eq by (simp add: to_string_def)
      then show ?thesis using hdn [of "nat a"] by simp
    next
      case False
      then have "digits_of (nat a) = digits_of (nat b)"
        using a eq by (simp add: to_string_def)
      then have "nat a = nat b" by (rule digits_of_inj)
      then show ?thesis using a False by simp
    qed
  qed
qed

section \<open>Names, time steps and the small cell\<close>

lemma joint_constraint_terms_append:
  "joint_constraint_terms (xs @ ys) = joint_constraint_terms xs @ joint_constraint_terms ys"
  by (induction xs rule: joint_constraint_terms.induct) simp_all

lemma pose_names_inj: "inj_on (\<lambda>t. ''pose_'' @ to_string t) A"
  by (rule inj_onI) (simp add: to_string_inj)

lemma sint_inj: "sint a = sint b \<Longrightarrow> a = (b :: c_int)"
  by (rule signed_word_eqI)

lemma segment_timesteps_distinct: "distinct (map sp_timestep (linear_segment this s e n f))"
proof -
  have "inj_on (\<lambda>j. word_of_int j + f :: c_int) (set [0..sint n - 1])"
  proof (rule inj_onI)
    fix j j' :: int
    assume j: "j \<in> set [0..sint n - 1]" and j': "j' \<in> set [0..sint n - 1]"
      and eq: "word_of_int j + f = (word_of_int j' + f :: c_int)"
    have "sint (word_of_int j :: c_int) = j"
      using j sint_bounds(2) [of n] by (intro sint_index) simp_all
    moreover have "sint (word_of_int j' :: c_int) = j'"
      using j' sint_bounds(2) [of n] by (intro sint_index) simp_all
    moreover have "(word_of_int j :: c_int) = word_of_int j'"
      using eq by simp
    ultimately show "j = j'"
      by metis
  qed
  then have "distinct (map (\<lambda>j. word_of_int j + f :: c_int) [0..sint n - 1])"
    by (simp add: distinct_map)
  then show ?thesis
    by (simp add: segment_timesteps_word)
qed

lemma segment_names_distinct: "distinct (map sp_name (linear_segment this s e n f))"
proof -
  have "inj_on (\<lambda>t. ''pose_'' @ to_string (sint (sp_timestep t)))
      (set (linear_segment this s e n f))"
  proof (rule inj_onI)
    fix t t'
    assume t: "t \<in> set (linear_segment this s e n f)"
      and t': "t' \<in> set (linear_segment this s e n f)"
      and eq: "''pose_'' @ to_string (sint (sp_timestep t))
          = ''pose_'' @ to_string (sint (sp_timestep t'))"
    have "sp_timestep t = sp_timestep t'"
      using eq by (simp add: to_string_inj sint_inj)
    moreover have "inj_on sp_timestep (set (linear_segment this s e n f))"
      using segment_timesteps_distinct [of this s e n f] by (simp add: distinct_map)
    ultimately show "t = t'"
      using t t' by (simp add: inj_on_def)
  qed
  then have "distinct (map (\<lambda>t. ''pose_'' @ to_string (sint (sp_timestep t)))
      (linear_segment this s e n f))"
    using segment_timesteps_distinct [of this s e n f]
    by (intro iffD2 [OF distinct_map] conjI) (simp_all add: distinct_map)
  moreover have "map sp_name (linear_segment this s e n f)
      = map (\<lambda>t. ''pose_'' @ to_string (sint (sp_timestep t))) (linear_segment this s e n f)"
    unfolding segment_names by (simp add: comp_def)
  ultimately show ?thesis
    by (simp only:)
qed

lemma sint_twice:
  assumes "0 \<le> sint k" "2 * sint k \<le> INT_MAX"
  shows "sint (k * 2 :: c_int) = 2 * sint k"
  using assms sint_mult_no_overflow [of k 2] by (simp add: INT_MAX_def)

lemma sint_thrice:
  assumes "0 \<le> sint k" "3 * sint k \<le> INT_MAX"
  shows "sint (k * 3 :: c_int) = 3 * sint k"
  using assms sint_mult_no_overflow [of k 3] by (simp add: INT_MAX_def)

lemma place_timesteps:
  assumes "3 * sint k \<le> INT_MAX"
  shows "map (sint \<circ> sp_timestep) (linear_segment this s e k 0) = [0..sint k - 1]"
    and "map (sint \<circ> sp_timestep) (linear_segment this s' e' k (k * 2))
           = [2 * sint k..3 * sint k - 1]"
proof -
  have "sint (0 :: c_int) + sint k - 1 \<le> INT_MAX"
    using sint_bounds(2) [of k] by (simp add: INT_MAX_def)
  then have "map (sint \<circ> sp_timestep) (linear_segment this s e k 0)
      = [sint (0 :: c_int)..sint (0 :: c_int) + sint k - 1]"
    by (rule segment_timesteps)
  then show "map (sint \<circ> sp_timestep) (linear_segment this s e k 0) = [0..sint k - 1]"
    by simp
  show "map (sint \<circ> sp_timestep) (linear_segment this s' e' k (k * 2))
           = [2 * sint k..3 * sint k - 1]"
  proof (cases "0 < sint k")
    case True
    then have two: "sint (k * 2) = 2 * sint k"
      using assms by (intro sint_twice) simp_all
    have "sint (k * 2) + sint k - 1 \<le> INT_MAX"
      using assms by (simp add: two)
    then have "map (sint \<circ> sp_timestep) (linear_segment this s' e' k (k * 2))
        = [sint (k * 2)..sint (k * 2) + sint k - 1]"
      by (rule segment_timesteps)
    then show ?thesis
      by (simp add: two)
  next
    case False
    then have "linear_segment this s' e' k (k * 2) = []"
      using segment_length [of this s' e' k "k * 2"] by simp
    then show ?thesis
      using False by simp
  qed
qed

lemma two_segments_names_distinct:
  assumes "3 * sint k \<le> INT_MAX"
  shows "distinct (map sp_name
           (linear_segment this s e k 0 @ linear_segment this s' e' k (k * 2)))"
proof -
  have d: "distinct ([0..sint k - 1] @ [2 * sint k..3 * sint k - 1])"
    by auto
  have "distinct (map (\<lambda>t. ''pose_'' @ to_string t)
      ([0..sint k - 1] @ [2 * sint k..3 * sint k - 1]))"
    by (intro iffD2 [OF distinct_map] conjI d pose_names_inj)
  then show ?thesis
    unfolding map_append segment_names place_timesteps [OF assms] .
qed

lemma joint_vel_costs_length:
  "length (joint_vel_costs this steps c) = length (getJointNames (this_kin this))"
  by (simp add: joint_vel_costs_eq)

lemma demo_this_fields:
  "this_env (demo_this ok) = demo_env ok"
  "this_kin (demo_this ok) = demo_kin ok"
  "this_ee_link (demo_this ok) = ''tool0''"
  "this_manipulator (demo_this ok) = ''manipulator''"
  by (simp_all add: demo_this_def TrajoptPickAndPlaceConstructor_def demo_env_def)

lemma demo_transforms:
  "transforms (getState (this_env (demo_this ok))) (getBaseLinkName (this_kin (demo_this ok)))
     = Some identity_pose"
  by (simp add: demo_this_fields demo_env_def demo_kin_def)

lemma demo_fk:
  "calcFwdKin (this_kin (demo_this ok)) b j l s = (ok, identity_pose)"
  by (simp add: demo_this_fields demo_kin_def)

section \<open>Matrices, quaternions and angles\<close>

lemma cofactor_simps:
  "cofactor m 0 0 = m11 m * m22 m - m12 m * m21 m"
  "cofactor m 1 0 = m21 m * m02 m - m22 m * m01 m"
  "cofactor m 2 0 = m01 m * m12 m - m02 m * m11 m"
  "cofactor m 0 1 = m12 m * m20 m - m10 m * m22 m"
  "cofactor m 1 1 = m22 m * m00 m - m20 m * m02 m"
  "cofactor m 2 1 = m02 m * m10 m - m00 m * m12 m"
  "cofactor m 0 2 = m10 m * m21 m - m11 m * m20 m"
  "cofactor m 1 2 = m20 m * m01 m - m21 m * m00 m"
  "cofactor m 2 2 = m00 m * m11 m - m01 m * m10 m"
  by (simp_all add: cofactor_def coeff_def)

lemma mat_inverse_mul:
  assumes "mat_det m \<noteq> 0"
  shows "\<exists>start_inv. mat_inverse m = Some start_inv \<and> mat_mul start_inv m = Matrix3d 1 0 0 0 1 0 0 0 1"
proof -
  define r where "r = 1 / mat_det m"
  obtain a b c d e f g h i where m: "m = Matrix3d a b c d e f g h i"
    by (cases m)
  have det: "mat_det m = (e * i - f * h) * a + (h * c - i * b) * d + (b * f - c * e) * g"
    unfolding mat_det_def cofactor_simps by (simp add: m)
  have dr: "((e * i - f * h) * a + (h * c - i * b) * d + (b * f - c * e) * g) * r = 1"
    using assms unfolding det [symmetric] r_def by simp
  have start_inv: "mat_inverse m = Some (Matrix3d
          ((e * i - f * h) * r) ((h * c - i * b) * r) ((b * f - c * e) * r)
          ((f * g - d * i) * r) ((i * a - g * c) * r) ((c * d - a * f) * r)
          ((d * h - e * g) * r) ((g * b - h * a) * r) ((a * e - b * d) * r))"
    using assms unfolding mat_inverse_def Let_def r_def [symmetric] cofactor_simps
    by (simp add: m)
  have e00: "(e * i - f * h) * r * a + (h * c - i * b) * r * d + (b * f - c * e) * r * g = 1"
    using dr by (simp add: algebra_simps)
  have e11: "(f * g - d * i) * r * b + (i * a - g * c) * r * e + (c * d - a * f) * r * h = 1"
    using dr by (simp add: algebra_simps)
  have e22: "(d * h - e * g) * r * c + (g * b - h * a) * r * f + (a * e - b * d) * r * i = 1"
    using dr by (simp add: algebra_simps)
  have z: "(e * i - f * h) * r * b + (h * c - i * b) * r * e + (b * f - c * e) * r * h = 0"
    "(e * i - f * h) * r * c + (h * c - i * b) * r * f + (b * f - c * e) * r * i = 0"
    "(f * g - d * i) * r * a + (i * a - g * c) * r * d + (c * d - a * f) * r * g = 0"
    "(f * g - d * i) * r * c + (i * a - g * c) * r * f + (c * d - a * f) * r * i = 0"
    "(d * h - e * g) * r * a + (g * b - h * a) * r * d + (a * e - b * d) * r * g = 0"
    "(d * h - e * g) * r * b + (g * b - h * a) * r * e + (a * e - b * d) * r * h = 0"
    by (simp_all add: algebra_simps)
  show ?thesis
    unfolding start_inv by (simp add: mat_mul_def m e00 e11 e22 z)
qed

lemma Quaterniond_of_identity:
  "Quaterniond_of_matrix (Matrix3d 1 0 0 0 1 0 0 0 1) = Quaterniond 1 0 0 0"
  by (simp add: Quaterniond_of_matrix_def mat_trace_def Let_def)

lemma AngleAxisd_of_identity:
  "AngleAxisd_of_matrix (Matrix3d 1 0 0 0 1 0 0 0 1) = \<lparr> angle = 0, axis = Vector3d 1 0 0 \<rparr>"
  by (simp add: AngleAxisd_of_matrix_def Quaterniond_of_identity AngleAxisd_of_quaternion_def
      vec_norm_def quat_vec_def)

lemma quat_mul_one: "quat_mul (Quaterniond 1 0 0 0) q = q"
  by (cases q) (simp add: quat_mul_def)

lemma atan2_sin_cos:
  assumes "0 < N" "0 \<le> h" "h \<le> pi / 2"
  shows "atan2 (N * sin h) (N * cos h) = h"
proof (cases "h = pi / 2")
  case True
  have "atan2 (N * sin (pi / 2)) (N * cos (pi / 2)) = pi / 2"
    using assms(1) by (simp add: atan2_def)
  then show ?thesis
    unfolding True .
next
  case False
  then have h: "h < pi / 2" using assms(3) by simp
  have c: "0 < cos h"
    using assms(2) h by (simp add: cos_gt_zero_pi)
  have "N * sin h / (N * cos h) = tan h"
    using assms(1) by (simp add: tan_def)
  moreover have "arctan (tan h) = h"
    using assms(2) h by (simp add: arctan_tan)
  ultimately show ?thesis
    using assms(1) c by (simp add: atan2_def)
qed

lemma atan2_range:
  assumes "0 < y" "0 \<le> x"
  shows "0 < atan2 y x \<and> atan2 y x \<le> pi / 2"
proof (cases "x = 0")
  case True
  then show ?thesis
    using assms(1) by (simp add: atan2_def)
next
  case False
  then have x: "0 < x" using assms(2) by simp
  then have "0 < y / x" using assms(1) by simp
  then have "0 < arctan (y / x)"
    by simp
  moreover have "arctan (y / x) < pi / 2"
    by (rule arctan_ubound)
  ultimately show ?thesis
    using x by (simp add: atan2_def)
qed

lemma vec_norm_nonneg: "0 \<le> vec_norm v"
  by (simp add: vec_norm_def)

lemma AngleAxisd_angle_range:
  "0 \<le> angle (AngleAxisd_of_quaternion q) \<and> angle (AngleAxisd_of_quaternion q) \<le> pi"
proof (cases "vec_norm (quat_vec q) = 0")
  case True
  then show ?thesis
    by (simp add: AngleAxisd_of_quaternion_def)
next
  case False
  then have "0 < vec_norm (quat_vec q)"
    using vec_norm_nonneg [of "quat_vec q"] by simp
  then have "0 < atan2 (vec_norm (quat_vec q)) \<bar>qw q\<bar>
      \<and> atan2 (vec_norm (quat_vec q)) \<bar>qw q\<bar> \<le> pi / 2"
    by (rule atan2_range) simp
  then show ?thesis
    using False by (simp add: AngleAxisd_of_quaternion_def Let_def)
qed

lemma AngleAxisd_axis_unit:
  "vx (axis (AngleAxisd_of_quaternion q)) * vx (axis (AngleAxisd_of_quaternion q))
   + vy (axis (AngleAxisd_of_quaternion q)) * vy (axis (AngleAxisd_of_quaternion q))
   + vz (axis (AngleAxisd_of_quaternion q)) * vz (axis (AngleAxisd_of_quaternion q)) = 1"
proof (cases "vec_norm (quat_vec q) = 0")
  case True
  then show ?thesis
    by (simp add: AngleAxisd_of_quaternion_def)
next
  case False
  define n where "n = vec_norm (quat_vec q)"
  have n0: "n \<noteq> 0" using False by (simp add: n_def)
  have nn: "n * n = qx q * qx q + qy q * qy q + qz q * qz q"
  proof -
    have "0 \<le> qx q * qx q + qy q * qy q + qz q * qz q"
      by (simp add: add_nonneg_nonneg)
    then show ?thesis
      by (simp add: n_def vec_norm_def quat_vec_def)
  qed
  have unit: "(x / m) * (x / m) + (y / m) * (y / m) + (z / m) * (z / m) = 1"
    if "m * m = x * x + y * y + z * z" "m \<noteq> 0" for x y z m :: real
  proof -
    have "(x / m) * (x / m) + (y / m) * (y / m) + (z / m) * (z / m)
        = (x * x + y * y + z * z) / (m * m)"
      by (simp add: add_divide_distrib)
    also have "\<dots> = (m * m) / (m * m)"
      using that(1) by simp
    also have "\<dots> = 1"
      using that(2) by simp
    finally show ?thesis .
  qed
  show ?thesis
  proof (cases "qw q < 0")
    case True
    have "(- n) * (- n) = qx q * qx q + qy q * qy q + qz q * qz q" using nn by simp
    moreover have "- n \<noteq> 0" using n0 by simp
    ultimately have "(qx q / (- n)) * (qx q / (- n)) + (qy q / (- n)) * (qy q / (- n))
        + (qz q / (- n)) * (qz q / (- n)) = 1"
      by (rule unit)
    then show ?thesis
      using False True unfolding n_def
      by (simp add: AngleAxisd_of_quaternion_def Let_def vec_div_def quat_vec_def)
  next
    case w: False
    have "(qx q / n) * (qx q / n) + (qy q / n) * (qy q / n) + (qz q / n) * (qz q / n) = 1"
      using nn n0 by (rule unit)
    then show ?thesis
      using False w unfolding n_def
      by (simp add: AngleAxisd_of_quaternion_def Let_def vec_div_def quat_vec_def)
  qed
qed

lemma Quaterniond_of_matrix_not_zero: "0 < quat_norm2 (Quaterniond_of_matrix m)"
proof -
  have pos: "0 < w * w + x * x + y * y + z * z"
    if "w \<noteq> 0 \<or> x \<noteq> 0 \<or> y \<noteq> 0 \<or> z \<noteq> 0" for w x y z :: real
    using that by (metis add_pos_nonneg add_nonneg_pos add_nonneg_nonneg
        zero_le_square not_real_square_gt_zero)
  show ?thesis
  proof (cases "mat_trace m > 0")
    case True
    then have "qw (Quaterniond_of_matrix m) \<noteq> 0"
      by (simp add: Quaterniond_of_matrix_def Let_def)
    then show ?thesis
      unfolding quat_norm2_def by (intro pos) simp
  next
    case False
    then have t: "m00 m + m11 m + m22 m \<le> 0"
      by (simp add: mat_trace_def)
    show ?thesis
    proof (cases "m11 m > m00 m")
      case i1: True
      show ?thesis
      proof (cases "m22 m > m11 m")
        case True
        then have "0 < m22 m - m00 m - m11 m + 1"
          using t i1 by simp
        then have "qz (Quaterniond_of_matrix m) \<noteq> 0"
          using False i1 True
          by (simp add: Quaterniond_of_matrix_def Let_def coeff_def set_coeff_def)
        then show ?thesis
          unfolding quat_norm2_def by (intro pos) simp
      next
        case i2: False
        then have "0 < m11 m - m22 m - m00 m + 1"
          using t i1 by simp
        then have "qy (Quaterniond_of_matrix m) \<noteq> 0"
          using False i1 i2
          by (simp add: Quaterniond_of_matrix_def Let_def coeff_def set_coeff_def)
        then show ?thesis
          unfolding quat_norm2_def by (intro pos) simp
      qed
    next
      case i1: False
      show ?thesis
      proof (cases "m22 m > m00 m")
        case True
        then have "0 < m22 m - m00 m - m11 m + 1"
          using t i1 by simp
        then have "qz (Quaterniond_of_matrix m) \<noteq> 0"
          using False i1 True
          by (simp add: Quaterniond_of_matrix_def Let_def coeff_def set_coeff_def)
        then show ?thesis
          unfolding quat_norm2_def by (intro pos) simp
      next
        case i2: False
        then have "0 < m00 m - m11 m - m22 m + 1"
          using t i1 by simp
        then have "qx (Quaterniond_of_matrix m) \<noteq> 0"
          using False i1 i2
          by (simp add: Quaterniond_of_matrix_def Let_def coeff_def set_coeff_def)
        then show ?thesis
          unfolding quat_norm2_def by (intro pos) simp
      qed
    qed
  qed
qed

lemma relative_rotation:
  "quat_mul (quat_mul (Quaterniond c1 (ax * s1) (ay * s1) (az * s1)) q)
     (quat_conjugate (quat_mul (Quaterniond c0 (ax * s0) (ay * s0) (az * s0)) q))
   = Quaterniond
       (quat_norm2 q * (c1 * c0 + s1 * s0 * (ax * ax + ay * ay + az * az)))
       (quat_norm2 q * (s1 * c0 - c1 * s0) * ax)
       (quat_norm2 q * (s1 * c0 - c1 * s0) * ay)
       (quat_norm2 q * (s1 * c0 - c1 * s0) * az)"
  by (cases q) (simp add: quat_mul_def quat_conjugate_def quat_norm2_def algebra_simps)

lemma scaled_axis_norm:
  assumes "ax * ax + ay * ay + az * az = 1" "0 \<le> k"
  shows "vec_norm (Vector3d (k * ax) (k * ay) (k * az)) = k"
proof -
  have "k * ax * (k * ax) + k * ay * (k * ay) + k * az * (k * az)
      = k * k * (ax * ax + ay * ay + az * az)"
    by (simp add: algebra_simps)
  then have "vec_norm (Vector3d (k * ax) (k * ay) (k * az)) = sqrt (k * k)"
    by (simp add: vec_norm_def assms(1))
  then show ?thesis
    using assms(2) by simp
qed

lemma angularDistance_steps:
  assumes unit: "ax * ax + ay * ay + az * az = 1"
    and N: "0 < quat_norm2 q"
    and h: "0 \<le> u1 - u0" "u1 - u0 \<le> pi / 2"
  shows "angularDistance
           (quat_mul (Quaterniond (cos u1) (ax * sin u1) (ay * sin u1) (az * sin u1)) q)
           (quat_mul (Quaterniond (cos u0) (ax * sin u0) (ay * sin u0) (az * sin u0)) q)
         = 2 * (u1 - u0)"
proof -
  define N where "N = quat_norm2 q"
  have c: "cos u1 * cos u0 + sin u1 * sin u0 * (ax * ax + ay * ay + az * az) = cos (u1 - u0)"
    by (simp add: unit cos_diff)
  have s: "sin u1 * cos u0 - cos u1 * sin u0 = sin (u1 - u0)"
    by (simp add: sin_diff)
  have s0: "0 \<le> sin (u1 - u0)"
    using h by (intro sin_ge_zero) simp_all
  have c0: "0 \<le> cos (u1 - u0)"
    using h by (intro cos_ge_zero) simp_all
  have k0: "0 \<le> N * sin (u1 - u0)"
    using N s0 by (simp add: N_def)
  have nrm: "vec_norm (Vector3d (N * sin (u1 - u0) * ax) (N * sin (u1 - u0) * ay)
      (N * sin (u1 - u0) * az)) = N * sin (u1 - u0)"
    using unit k0 by (rule scaled_axis_norm)
  have ab: "\<bar>N * cos (u1 - u0)\<bar> = N * cos (u1 - u0)"
    using N c0 by (simp add: N_def)
  have "angularDistance
           (quat_mul (Quaterniond (cos u1) (ax * sin u1) (ay * sin u1) (az * sin u1)) q)
           (quat_mul (Quaterniond (cos u0) (ax * sin u0) (ay * sin u0) (az * sin u0)) q)
      = 2 * atan2 (N * sin (u1 - u0)) (N * cos (u1 - u0))"
    unfolding angularDistance_def relative_rotation c s N_def [symmetric] Let_def
    by (simp add: quat_vec_def nrm ab)
  also have "atan2 (N * sin (u1 - u0)) (N * cos (u1 - u0)) = u1 - u0"
    using N h by (intro atan2_sin_cos) (simp_all add: N_def)
  finally show ?thesis .
qed

lemma quat_of_wxyz_inverse: "quat_of_wxyz (wxyz_of_quat q) = q"
  by (simp add: quat_of_wxyz_def wxyz_of_quat_def)

section \<open>The poses of a linear segment\<close>

lemma locals_same_rotation:
  assumes "linear_part P0 = linear_part P1" "mat_det (linear_part P0) \<noteq> 0" "n \<noteq> 1"
  shows "angle_delta (linear_motion_locals P0 P1 n) = Some 0"
    and "delta_axis (linear_motion_locals P0 P1 n) = Some (Vector3d 1 0 0)"
proof -
  obtain start_inv where start_inv: "mat_inverse (linear_part P0) = Some start_inv"
    and one: "mat_mul start_inv (linear_part P0) = Matrix3d 1 0 0 0 1 0 0 0 1"
    using mat_inverse_mul [OF assms(2)] by blast
  show "angle_delta (linear_motion_locals P0 P1 n) = Some 0"
    using assms(3)
    by (simp add: linear_motion_locals_def start_inv assms(1) [symmetric] one
        AngleAxisd_of_identity div_int_def)
  show "delta_axis (linear_motion_locals P0 P1 n) = Some (Vector3d 1 0 0)"
    by (simp add: linear_motion_locals_def start_inv assms(1) [symmetric] one
        AngleAxisd_of_identity)
qed

lemma locals_approach_rotation:
  "approach_rotation (linear_motion_locals P0 P1 n) = Quaterniond_of_matrix (linear_part P0)"
  by (simp add: linear_motion_locals_def Let_def)

lemma segment_two_steps:
  "linear_segment this s e 2 f =
     [pose_constraint this s (linear_motion_locals s e 2) f 0,
      pose_constraint this s (linear_motion_locals s e 2) f 1]"
proof -
  have "[0..sint (2 :: c_int) - 1] = [0, 1]"
    by (simp add: upto_rec1)
  then show ?thesis
    by (simp add: linear_segment_eq)
qed

lemma segment_one_step:
  "linear_segment this s e 1 f = [pose_constraint this s (linear_motion_locals s e 1) f 0]"
  by (simp add: linear_segment_eq)

lemma half_turn_inverse:
  "mat_inverse (Matrix3d 1 0 0 0 (- 1) 0 0 0 (- 1)) = Some (Matrix3d 1 0 0 0 (- 1) 0 0 0 (- 1))"
  unfolding mat_inverse_def mat_det_def cofactor_simps by simp

lemma half_to_quarter_locals:
  "linear_motion_locals half_turn_x quarter_turn_z 2 =
     \<lparr> xyz_delta = Some (Vector3d 1 0 0),
       approach_rotation = Quaterniond 0 1 0 0,
       angle_delta = Some pi,
       delta_axis = Some (Vector3d (sqrt 2 / 2) (- (sqrt 2 / 2)) 0) \<rparr>"
proof -
  have diff: "mat_mul (Matrix3d 1 0 0 0 (- 1) 0 0 0 (- 1)) (Matrix3d 0 (- 1) 0 1 0 0 0 0 1)
      = Matrix3d 0 (- 1) 0 (- 1) 0 0 0 0 (- 1)"
    by (simp add: mat_mul_def)
  have q: "Quaterniond_of_matrix (Matrix3d 0 (- 1) 0 (- 1) 0 0 0 0 (- 1))
      = Quaterniond 0 (sqrt 2 / 2) (- (sqrt 2 / 2)) 0"
    by (simp add: Quaterniond_of_matrix_def mat_trace_def Let_def coeff_def set_coeff_def
        real_div_sqrt)
  have n: "vec_norm (Vector3d (sqrt 2 / 2) (- (sqrt 2 / 2)) 0) = 1"
    by (simp add: vec_norm_def)
  have aa: "AngleAxisd_of_matrix (Matrix3d 0 (- 1) 0 (- 1) 0 0 0 0 (- 1))
      = \<lparr> angle = pi, axis = Vector3d (sqrt 2 / 2) (- (sqrt 2 / 2)) 0 \<rparr>"
    by (simp add: AngleAxisd_of_matrix_def q AngleAxisd_of_quaternion_def quat_vec_def n
        atan2_def vec_div_def)
  have s: "Quaterniond_of_matrix (Matrix3d 1 0 0 0 (- 1) 0 0 0 (- 1)) = Quaterniond 0 1 0 0"
    by (simp add: Quaterniond_of_matrix_def mat_trace_def Let_def coeff_def set_coeff_def)
  show ?thesis
    by (simp add: linear_motion_locals_def half_turn_x_def quarter_turn_z_def
        half_turn_inverse diff aa s vec_div_int_def vec_sub_def vec_div_def div_int_def)
qed

lemma locals_invertible:
  assumes start_inv: "mat_inverse (linear_part P0) = Some start_inv" and n: "n \<noteq> 1"
  shows "angle_delta (linear_motion_locals P0 P1 n)
           = Some (angle (AngleAxisd_of_matrix (mat_mul start_inv (linear_part P1)))
                     / real_of_int (sint (n - 1)))"
    and "delta_axis (linear_motion_locals P0 P1 n)
           = Some (axis (AngleAxisd_of_matrix (mat_mul start_inv (linear_part P1))))"
  using n by (simp_all add: linear_motion_locals_def start_inv div_int_def)

lemma pose_constraint_wxyz:
  assumes "angle_delta loc = Some ad" "delta_axis loc = Some a"
  shows "sp_wxyz (pose_constraint this s loc f j)
     = Some (wxyz_of_quat (quat_mul
         (Quaterniond (cos ((1 / 2) * ad * real_of_int (sint j)))
            (vx a * sin ((1 / 2) * ad * real_of_int (sint j)))
            (vy a * sin ((1 / 2) * ad * real_of_int (sint j)))
            (vz a * sin ((1 / 2) * ad * real_of_int (sint j))))
         (approach_rotation loc)))"
  by (simp add: pose_constraint_def assms wxyz_of_quat_def)

lemma segment_nth:
  assumes "int i < sint n"
  shows "linear_segment this s e n f ! i
     = pose_constraint this s (linear_motion_locals s e n) f (word_of_int (int i))"
proof -
  have "i < length [0..sint n - 1]" using assms by simp
  moreover have "[0..sint n - 1] ! i = 0 + int i"
    using assms by (intro nth_upto) simp
  ultimately show ?thesis
    by (simp add: linear_segment_eq)
qed

lemma sint_nat_index:
  assumes "int i < sint (n :: c_int)"
  shows "sint (word_of_int (int i) :: c_int) = int i"
  using assms sint_bounds(2) [of n] by (intro sint_index) simp_all

lemma sint_pred:
  assumes "2 \<le> sint (n :: c_int)"
  shows "sint (n - 1) = sint n - 1" and "n - 1 \<noteq> 0" and "n \<noteq> 1"
proof -
  show p: "sint (n - 1) = sint n - 1"
    using assms sint_bounds(2) [of n] sint_diff_no_overflow [of n 1] by simp
  show "n - 1 \<noteq> 0"
  proof
    assume "n - 1 = 0"
    then have "sint (n - 1) = 0" by simp
    then show False using p assms by simp
  qed
  then show "n \<noteq> 1" by auto
qed

lemma segment_xyz:
  assumes "2 \<le> sint n"
  shows "map sp_xyz (linear_segment this s e n f)
     = map (\<lambda>j. Some (vec_add (translation s)
              (vec_scale (vec_div (vec_sub (translation e) (translation s))
                            (real_of_int (sint n - 1)))
                 (real_of_int j))))
         [0..sint n - 1]"
proof -
  have d: "xyz_delta (linear_motion_locals s e n)
      = Some (vec_div (vec_sub (translation e) (translation s)) (real_of_int (sint n - 1)))"
    using sint_pred [OF assms]
    by (simp add: linear_motion_locals_def vec_div_int_def del: of_int_sint)
  have idx: "sint (word_of_int j :: c_int) = j" if "j \<in> set [0..sint n - 1]" for j
    using that sint_bounds(2) [of n] by (intro sint_index) simp_all
  have "sp_xyz (pose_constraint this s (linear_motion_locals s e n) f (word_of_int j))
      = Some (vec_add (translation s)
              (vec_scale (vec_div (vec_sub (translation e) (translation s))
                            (real_of_int (sint n - 1)))
                 (real_of_int j)))" if "j \<in> set [0..sint n - 1]" for j
    by (simp add: pose_constraint_def d idx [OF that] del: of_int_sint)
  then show ?thesis
    unfolding linear_segment_eq map_map comp_def by (intro map_cong refl) blast
qed

lemma segment_first_xyz:
  assumes "2 \<le> sint n"
  shows "sp_xyz (linear_segment this s e n f ! 0) = Some (translation s)"
proof -
  have d: "xyz_delta (linear_motion_locals s e n)
      = Some (vec_div (vec_sub (translation e) (translation s)) (real_of_int (sint n - 1)))"
    using sint_pred [OF assms]
    by (simp add: linear_motion_locals_def vec_div_int_def del: of_int_sint)
  have "int 0 < sint n" using assms by simp
  then have "linear_segment this s e n f ! 0
      = pose_constraint this s (linear_motion_locals s e n) f (word_of_int (int 0))"
    by (rule segment_nth)
  then show ?thesis
    by (simp add: pose_constraint_def d vec_add_def vec_scale_def)
qed

lemma segment_last_xyz:
  assumes "2 \<le> sint n"
  shows "sp_xyz (linear_segment this s e n f ! nat (sint n - 1)) = Some (translation e)"
proof -
  define m where "m = real_of_int (sint n - 1)"
  have "sint n - 1 \<noteq> 0"
    using assms by simp
  then have m0: "m \<noteq> 0"
    unfolding m_def by (simp only: of_int_eq_0_iff) simp
  have d: "xyz_delta (linear_motion_locals s e n)
      = Some (vec_div (vec_sub (translation e) (translation s)) m)"
    using sint_pred [OF assms]
    by (simp add: linear_motion_locals_def vec_div_int_def m_def del: of_int_sint)
  have i: "int (nat (sint n - 1)) < sint n"
    using assms by simp
  have "sint (word_of_int (int (nat (sint n - 1))) :: c_int) = int (nat (sint n - 1))"
    by (rule sint_nat_index [OF i])
  also have "\<dots> = sint n - 1"
    using assms by simp
  finally have si: "real_of_int (sint (word_of_int (int (nat (sint n - 1))) :: c_int)) = m"
    unfolding m_def by (simp only:)
  have "vec_add (translation s) (vec_scale (vec_div (vec_sub (translation e) (translation s)) m) m)
      = translation e"
    using m0 by (cases "translation e"; cases "translation s")
      (simp add: vec_add_def vec_scale_def vec_div_def vec_sub_def)
  then show ?thesis
    unfolding segment_nth [OF i] pose_constraint_def Let_def d si by simp
qed

lemma segment_first_wxyz:
  assumes "2 \<le> sint n" "mat_det (linear_part s) \<noteq> 0"
  shows "sp_wxyz (linear_segment this s e n f ! 0)
     = Some (wxyz_of_quat (Quaterniond_of_matrix (linear_part s)))"
proof -
  obtain start_inv where start_inv: "mat_inverse (linear_part s) = Some start_inv"
    using mat_inverse_mul [OF assms(2)] by blast
  have n1: "n \<noteq> 1"
    using sint_pred(3) [OF assms(1)] .
  have "int 0 < sint n" using assms(1) by simp
  then have "linear_segment this s e n f ! 0
      = pose_constraint this s (linear_motion_locals s e n) f (word_of_int (int 0))"
    by (rule segment_nth)
  then show ?thesis
    using pose_constraint_wxyz [OF locals_invertible [OF start_inv n1, of e],
        of this s f "word_of_int (int 0)"]
    by (simp add: quat_mul_one locals_approach_rotation)
qed

lemma quarter_turn_det: "mat_det (linear_part quarter_turn_z) \<noteq> 0"
  unfolding mat_det_def cofactor_simps by (simp add: quarter_turn_z_def)

lemma half_turn_det: "mat_det (linear_part half_turn_x) \<noteq> 0"
  unfolding mat_det_def cofactor_simps by (simp add: half_turn_x_def)

lemma identity_det: "mat_det (linear_part identity_pose) \<noteq> 0"
  unfolding mat_det_def cofactor_simps by (simp add: identity_pose_def)

section \<open>Interpolated poses\<close>

text \<open>
  Claim C1 says that the last pose of a segment is the end pose, in position and in
  orientation. The loop turns the start orientation by the rotation from start to end
  taken in the frame of the start pose, but multiplies it on the left, where it acts in
  the fixed frame. From a half turn about x to a quarter turn about z in two steps, the
  positions are those of the two poses and the first orientation is that of the start;
  the last orientation is the quaternion \<open>(- sqrt 2 / 2, 0, 0, sqrt 2 / 2)\<close>, where the end
  pose has \<open>(sqrt 2 / 2, 0, 0, sqrt 2 / 2)\<close>: its rotation matrix is the quarter turn about
  z the other way round, and not the rotation of the end pose.
\<close>

theorem last_orientation_not_end:
  "map sp_xyz (linear_segment (demo_this True) half_turn_x quarter_turn_z 2 0)
     = [Some (translation half_turn_x), Some (translation quarter_turn_z)]
   \<and> map sp_wxyz (linear_segment (demo_this True) half_turn_x quarter_turn_z 2 0)
     = [Some (Vector4d 0 1 0 0), Some (Vector4d (- (sqrt 2 / 2)) 0 0 (sqrt 2 / 2))]
   \<and> wxyz_of_quat (Quaterniond_of_matrix (linear_part half_turn_x)) = Vector4d 0 1 0 0
   \<and> wxyz_of_quat (Quaterniond_of_matrix (linear_part quarter_turn_z))
     = Vector4d (sqrt 2 / 2) 0 0 (sqrt 2 / 2)
   \<and> toRotationMatrix (Quaterniond (- (sqrt 2 / 2)) 0 0 (sqrt 2 / 2))
     = Matrix3d 0 1 0 (- 1) 0 0 0 0 1
   \<and> toRotationMatrix (Quaterniond (sqrt 2 / 2) 0 0 (sqrt 2 / 2))
     = linear_part quarter_turn_z
   \<and> toRotationMatrix (Quaterniond (- (sqrt 2 / 2)) 0 0 (sqrt 2 / 2))
     \<noteq> linear_part quarter_turn_z"
proof -
  have e: "Quaterniond_of_matrix (Matrix3d 0 (- 1) 0 1 0 0 0 0 1)
      = Quaterniond (sqrt 2 / 2) 0 0 (sqrt 2 / 2)"
    by (simp add: Quaterniond_of_matrix_def mat_trace_def Let_def real_div_sqrt)
  have s: "Quaterniond_of_matrix (Matrix3d 1 0 0 0 (- 1) 0 0 0 (- 1)) = Quaterniond 0 1 0 0"
    by (simp add: Quaterniond_of_matrix_def mat_trace_def Let_def coeff_def set_coeff_def)
  have r: "toRotationMatrix (Quaterniond (- (sqrt 2 / 2)) 0 0 (sqrt 2 / 2))
     = Matrix3d 0 1 0 (- 1) 0 0 0 0 1"
    by (simp add: toRotationMatrix_def Let_def)
  have x: "map sp_xyz (linear_segment (demo_this True) half_turn_x quarter_turn_z 2 0)
     = [Some (translation half_turn_x), Some (translation quarter_turn_z)]"
    unfolding segment_two_steps half_to_quarter_locals
    by (simp add: pose_constraint_def half_turn_x_def quarter_turn_z_def vec_add_def
        vec_scale_def)
  have w: "map sp_wxyz (linear_segment (demo_this True) half_turn_x quarter_turn_z 2 0)
     = [Some (Vector4d 0 1 0 0), Some (Vector4d (- (sqrt 2 / 2)) 0 0 (sqrt 2 / 2))]"
    unfolding segment_two_steps half_to_quarter_locals
    by (simp add: pose_constraint_def quat_mul_def)
  have r': "toRotationMatrix (Quaterniond (sqrt 2 / 2) 0 0 (sqrt 2 / 2))
     = Matrix3d 0 (- 1) 0 1 0 0 0 0 1"
    by (simp add: toRotationMatrix_def Let_def)
  show ?thesis
    using x w r r' by (simp add: e s wxyz_of_quat_def half_turn_x_def quarter_turn_z_def)
qed

text \<open>
  Claim C6. When the start pose and the end pose have the same rotation (an invertible
  matrix), every pose constraint of the segment carries the quaternion of that rotation,
  a real vector: the relative rotation is the identity, whose angle is \<open>0\<close> about the x
  axis. One step is left out: there the angle step is \<open>0 / 0\<close>.
\<close>

theorem same_orientation_kept:
  assumes "linear_part P0 = linear_part P1"
    and "mat_det (linear_part P0) \<noteq> 0"
    and "n \<noteq> 1"
  shows "\<forall>t \<in> set (linear_segment this P0 P1 n f).
           sp_wxyz t = Some (wxyz_of_quat (Quaterniond_of_matrix (linear_part P0)))"
proof -
  have "sp_wxyz (pose_constraint this P0 (linear_motion_locals P0 P1 n) f j)
          = Some (wxyz_of_quat (Quaterniond_of_matrix (linear_part P0)))" for j
    by (simp add: pose_constraint_def locals_same_rotation [OF assms] quat_mul_one
        wxyz_of_quat_def locals_approach_rotation)
  then show ?thesis
    by (auto simp add: linear_segment_eq)
qed

text \<open>
  The theorem for a quarter turn about z kept over two steps.
\<close>

theorem same_orientation_kept_witness:
  "linear_part quarter_turn_z = linear_part (quarter_turn_z \<lparr> translation := Vector3d 0 0 0 \<rparr>)
   \<and> mat_det (linear_part quarter_turn_z) \<noteq> 0
   \<and> (2::c_int) \<noteq> 1
   \<and> linear_segment (demo_this True) quarter_turn_z
        (quarter_turn_z \<lparr> translation := Vector3d 0 0 0 \<rparr>) 2 0 ! 1
       \<in> set (linear_segment (demo_this True) quarter_turn_z
                (quarter_turn_z \<lparr> translation := Vector3d 0 0 0 \<rparr>) 2 0)
   \<and> sp_wxyz (linear_segment (demo_this True) quarter_turn_z
        (quarter_turn_z \<lparr> translation := Vector3d 0 0 0 \<rparr>) 2 0 ! 1)
       = Some (wxyz_of_quat (Quaterniond_of_matrix (linear_part quarter_turn_z)))"
proof -
  have h1: "linear_part quarter_turn_z
      = linear_part (quarter_turn_z \<lparr> translation := Vector3d 0 0 0 \<rparr>)"
    by simp
  have h2: "mat_det (linear_part quarter_turn_z) \<noteq> 0"
    by (rule quarter_turn_det)
  have h3: "(2::c_int) \<noteq> 1" by simp
  have mem: "linear_segment (demo_this True) quarter_turn_z
        (quarter_turn_z \<lparr> translation := Vector3d 0 0 0 \<rparr>) 2 0 ! 1
       \<in> set (linear_segment (demo_this True) quarter_turn_z
                (quarter_turn_z \<lparr> translation := Vector3d 0 0 0 \<rparr>) 2 0)"
    by (rule nth_mem) (simp add: segment_length)
  show ?thesis
    using h1 h2 h3 mem same_orientation_kept [OF h1 h2 h3, of "demo_this True" 0]
    by blast
qed

text \<open>
  Claim C7. In a segment of \<open>n\<close> steps from an invertible start rotation, the angle
  between the orientations of two consecutive pose constraints is the angle of the
  relative rotation divided by \<open>n - 1\<close>, whatever the two translations are.
\<close>

theorem consecutive_angle:
  assumes det: "mat_det (linear_part P0) \<noteq> 0" and i: "int i + 1 < sint n"
  shows "\<exists>start_inv q0 q1. mat_inverse (linear_part P0) = Some start_inv
     \<and> sp_wxyz (linear_segment this P0 P1 n f ! i) = Some q0
     \<and> sp_wxyz (linear_segment this P0 P1 n f ! Suc i) = Some q1
     \<and> angularDistance (quat_of_wxyz q1) (quat_of_wxyz q0)
         = angle (AngleAxisd_of_matrix (mat_mul start_inv (linear_part P1)))
             / real_of_int (sint n - 1)"
proof -
  obtain start_inv where start_inv: "mat_inverse (linear_part P0) = Some start_inv"
    using mat_inverse_mul [OF det] by blast
  define aa where "aa = AngleAxisd_of_matrix (mat_mul start_inv (linear_part P1))"
  define m where "m = real_of_int (sint n - 1)"
  define ad where "ad = angle aa / m"
  define loc where "loc = linear_motion_locals P0 P1 n"
  define rd where "rd = (\<lambda>j::int. Quaterniond (cos ((1 / 2) * ad * real_of_int j))
            (vx (axis aa) * sin ((1 / 2) * ad * real_of_int j))
            (vy (axis aa) * sin ((1 / 2) * ad * real_of_int j))
            (vz (axis aa) * sin ((1 / 2) * ad * real_of_int j)))"
  have n2: "2 \<le> sint n"
    using i by simp
  have n1: "n \<noteq> 1"
    using sint_pred(3) [OF n2] .
  have "1 \<le> sint n - 1"
    using n2 by simp
  then have m1: "1 \<le> m"
    unfolding m_def by (simp only: of_int_1_le_iff)
  have pm: "real_of_int (sint (n - 1)) = m"
    unfolding m_def sint_pred(1) [OF n2] ..
  have loc_ad: "angle_delta loc = Some ad" and loc_ax: "delta_axis loc = Some (axis aa)"
    using locals_invertible [OF start_inv n1, of P1] unfolding pm
    by (simp_all add: loc_def ad_def aa_def)
  have w: "sp_wxyz (pose_constraint this P0 loc f j)
      = Some (wxyz_of_quat (quat_mul (rd (sint j)) (approach_rotation loc)))" for j
    unfolding rd_def by (rule pose_constraint_wxyz [OF loc_ad loc_ax])
  have i0: "int i < sint n" and i1: "int (Suc i) < sint n"
    using i by simp_all
  have s0: "sint (word_of_int (int i) :: c_int) = int i"
    by (rule sint_nat_index [OF i0])
  have "sint (word_of_int (int (Suc i)) :: c_int) = int (Suc i)"
    by (rule sint_nat_index [OF i1])
  also have "\<dots> = int i + 1"
    by simp
  finally have s1: "sint (word_of_int (int (Suc i)) :: c_int) = int i + 1" .
  have e0: "sp_wxyz (linear_segment this P0 P1 n f ! i)
      = Some (wxyz_of_quat (quat_mul (rd (int i)) (approach_rotation loc)))"
    unfolding segment_nth [OF i0] loc_def [symmetric] w s0 ..
  have e1: "sp_wxyz (linear_segment this P0 P1 n f ! Suc i)
      = Some (wxyz_of_quat (quat_mul (rd (int i + 1)) (approach_rotation loc)))"
    unfolding segment_nth [OF i1] loc_def [symmetric] w s1 ..
  have range: "0 \<le> angle aa" "angle aa \<le> pi"
    using AngleAxisd_angle_range [of "Quaterniond_of_matrix (mat_mul start_inv (linear_part P1))"]
    by (simp_all add: aa_def AngleAxisd_of_matrix_def)
  have ad0: "0 \<le> ad"
    using range(1) m1 by (simp add: ad_def)
  have "angle aa / m \<le> angle aa / 1"
    using range(1) m1 by (intro divide_left_mono) simp_all
  then have "angle aa / m \<le> angle aa"
    by simp
  then have adpi: "ad \<le> pi"
    using range(2) by (simp add: ad_def)
  have unit: "vx (axis aa) * vx (axis aa) + vy (axis aa) * vy (axis aa)
      + vz (axis aa) * vz (axis aa) = 1"
    using AngleAxisd_axis_unit [of "Quaterniond_of_matrix (mat_mul start_inv (linear_part P1))"]
    by (simp add: aa_def AngleAxisd_of_matrix_def)
  have N: "0 < quat_norm2 (approach_rotation loc)"
    by (simp add: loc_def locals_approach_rotation Quaterniond_of_matrix_not_zero)
  define u0 where "u0 = (1 / 2) * ad * real_of_int (int i)"
  define u1 where "u1 = (1 / 2) * ad * real_of_int (int i + 1)"
  have diff: "u1 - u0 = ad / 2"
    by (simp add: u0_def u1_def algebra_simps)
  have h0: "0 \<le> u1 - u0" and h1: "u1 - u0 \<le> pi / 2"
    using ad0 adpi by (simp_all add: diff)
  have "angularDistance (quat_mul (rd (int i + 1)) (approach_rotation loc))
          (quat_mul (rd (int i)) (approach_rotation loc)) = 2 * (u1 - u0)"
    unfolding rd_def u0_def [symmetric] u1_def [symmetric]
    by (rule angularDistance_steps [OF unit N h0 h1])
  then have "angularDistance (quat_mul (rd (int i + 1)) (approach_rotation loc))
          (quat_mul (rd (int i)) (approach_rotation loc)) = ad"
    by (simp add: diff)
  then show ?thesis
    using start_inv e0 e1 by (simp add: quat_of_wxyz_inverse ad_def aa_def m_def)
qed

text \<open>
  The theorem for the two steps from a half turn about x to a quarter turn about z.
\<close>

theorem consecutive_angle_witness:
  "mat_det (linear_part half_turn_x) \<noteq> 0
   \<and> int 0 + 1 < sint (2 :: c_int)
   \<and> (\<exists>start_inv q0 q1. mat_inverse (linear_part half_turn_x) = Some start_inv
     \<and> sp_wxyz (linear_segment (demo_this True) half_turn_x quarter_turn_z 2 0 ! 0) = Some q0
     \<and> sp_wxyz (linear_segment (demo_this True) half_turn_x quarter_turn_z 2 0 ! Suc 0)
         = Some q1
     \<and> angularDistance (quat_of_wxyz q1) (quat_of_wxyz q0)
         = angle (AngleAxisd_of_matrix (mat_mul start_inv (linear_part quarter_turn_z)))
             / real_of_int (sint (2 :: c_int) - 1))"
proof -
  have h1: "mat_det (linear_part half_turn_x) \<noteq> 0"
    by (rule half_turn_det)
  have h2: "int 0 + 1 < sint (2 :: c_int)" by simp
  show ?thesis
    using h1 h2 consecutive_angle [OF h1 h2, of "demo_this True" quarter_turn_z 0]
    by blast
qed

section \<open>The shape of the assembled problems\<close>

text \<open>
  Claim C2 speaks of every number \<open>k\<close> of steps per phase. In the small cell, with one
  step each segment of the place problem is one pose constraint without a position (the
  division by \<open>num_steps - 1 = 0\<close>); with \<open>715827883\<close> steps the number of steps
  \<open>3 k\<close> wraps round to \<open>- 2147483647\<close>; and with two steps from a half turn about x to
  a quarter turn about z the second segment ends on the quaternion
  \<open>(- sqrt 2 / 2, 0, 0, sqrt 2 / 2)\<close>, where the final pose has
  \<open>(sqrt 2 / 2, 0, 0, sqrt 2 / 2)\<close>.
\<close>

theorem generatePlaceProblem_counterexample:
  "map sp_xyz (pose_terms (cnt_infos (projr
      (generatePlaceProblem (demo_this True) quarter_turn_z identity_pose quarter_turn_z 1))))
     = [None, None]
   \<and> sint (n_steps (projr
        (generatePlaceProblem (demo_this True) quarter_turn_z identity_pose quarter_turn_z
           715827883))) = - 2147483647
   \<and> drop 2 (map sp_wxyz (pose_terms (cnt_infos (projr
        (generatePlaceProblem (demo_this True) identity_pose half_turn_x quarter_turn_z 2)))))
       = [Some (Vector4d 0 1 0 0), Some (Vector4d (- (sqrt 2 / 2)) 0 0 (sqrt 2 / 2))]
   \<and> wxyz_of_quat (Quaterniond_of_matrix (linear_part quarter_turn_z))
       = Vector4d (sqrt 2 / 2) 0 0 (sqrt 2 / 2)"
proof -
  have one: "map sp_xyz (pose_terms (cnt_infos (projr
      (generatePlaceProblem (demo_this True) quarter_turn_z identity_pose quarter_turn_z 1))))
     = [None, None]"
    by (simp add: generatePlaceProblem_eq [OF demo_transforms] pose_terms_StaticPose
        pose_terms_append segment_one_step pose_constraint_def linear_motion_locals_def
        vec_div_int_def)
  have big: "sint (n_steps (projr
        (generatePlaceProblem (demo_this True) quarter_turn_z identity_pose quarter_turn_z
           715827883))) = - 2147483647"
    by (simp add: generatePlaceProblem_eq [OF demo_transforms])
  have seg2: "map sp_wxyz (linear_segment (demo_this True) half_turn_x quarter_turn_z 2 4)
       = [Some (Vector4d 0 1 0 0), Some (Vector4d (- (sqrt 2 / 2)) 0 0 (sqrt 2 / 2))]"
    unfolding segment_two_steps half_to_quarter_locals
    by (simp add: pose_constraint_def quat_mul_def)
  have w: "drop 2 (map sp_wxyz (pose_terms (cnt_infos (projr
        (generatePlaceProblem (demo_this True) identity_pose half_turn_x quarter_turn_z 2)))))
       = map sp_wxyz (linear_segment (demo_this True) half_turn_x quarter_turn_z 2 4)"
    by (simp add: generatePlaceProblem_eq [OF demo_transforms] pose_terms_StaticPose
        pose_terms_append segment_length)
  have e: "Quaterniond_of_matrix (Matrix3d 0 (- 1) 0 1 0 0 0 0 1)
      = Quaterniond (sqrt 2 / 2) 0 0 (sqrt 2 / 2)"
    by (simp add: Quaterniond_of_matrix_def mat_trace_def Let_def real_div_sqrt)
  show ?thesis
    using one big w [unfolded seg2] by (simp add: e wxyz_of_quat_def quarter_turn_z_def)
qed

text \<open>
  Claim C2 as amended. For \<open>0 \<le> k\<close> with \<open>3 k \<le> INT_MAX\<close>, and a state that holds a
  transform for the base link (\<open>at\<close> throws otherwise), \<open>generatePlaceProblem\<close> gives a
  problem of \<open>3 k\<close> steps whose constraints are one joint constraint at step \<open>0\<close> and
  then the pose constraints of two linear segments of \<open>k\<close> terms each, at the time steps
  \<open>0 .. k - 1\<close> and \<open>2 k .. 3 k - 1\<close>. Its one collision cost runs from step \<open>k\<close> to step
  \<open>2 k - 1\<close>. For \<open>2 \<le> k\<close> the positions of the first segment go by equal steps from
  that of the pose that forward kinematics gives to that of the retreat pose, those of the
  second from that of the approach pose to that of the final pose, and the first
  orientation of a segment is the quaternion of its start rotation when that is
  invertible. Nothing is said of the later orientations.
\<close>

theorem generatePlaceProblem_shape:
  fixes this r a f k change_base
  assumes tr: "transforms (getState (this_env this)) (getBaseLinkName (this_kin this))
                 = Some change_base"
    and k0: "0 \<le> sint k" and kmax: "3 * sint k \<le> INT_MAX"
  defines "fk \<equiv> snd (calcFwdKin (this_kin this) change_base
                      (getCurrentJointValues (this_env this)) (this_ee_link this)
                      (getState (this_env this)))"
  shows "\<exists>P. generatePlaceProblem this r a f k = Inr P
       \<and> sint (n_steps P) = 3 * sint k
       \<and> joint_constraint_terms (cnt_infos P)
           = [\<lparr> jc_term_type = TT_CNT, jc_timestep = 0, jc_name = ''start_pos_constraint'',
                jc_vals = getCurrentJointValues (this_env this) \<rparr>]
       \<and> pose_terms (cnt_infos P)
           = linear_segment this fk r k 0 @ linear_segment this a f k (2 * k)
       \<and> length (cnt_infos P) = 1 + length (pose_terms (cnt_infos P))
       \<and> int (length (linear_segment this fk r k 0)) = sint k
       \<and> int (length (linear_segment this a f k (2 * k))) = sint k
       \<and> map (sint \<circ> sp_timestep) (linear_segment this fk r k 0) = [0..sint k - 1]
       \<and> map (sint \<circ> sp_timestep) (linear_segment this a f k (2 * k))
           = [2 * sint k..3 * sint k - 1]
       \<and> (2 \<le> sint k \<longrightarrow>
            map sp_xyz (linear_segment this fk r k 0)
              = map (\<lambda>j. Some (vec_add (translation fk)
                       (vec_scale (vec_div (vec_sub (translation r) (translation fk))
                                     (real_of_int (sint k - 1)))
                          (real_of_int j))))
                  [0..sint k - 1]
          \<and> sp_xyz (linear_segment this fk r k 0 ! 0) = Some (translation fk)
          \<and> sp_xyz (linear_segment this fk r k 0 ! nat (sint k - 1)) = Some (translation r)
          \<and> map sp_xyz (linear_segment this a f k (2 * k))
              = map (\<lambda>j. Some (vec_add (translation a)
                       (vec_scale (vec_div (vec_sub (translation f) (translation a))
                                     (real_of_int (sint k - 1)))
                          (real_of_int j))))
                  [0..sint k - 1]
          \<and> sp_xyz (linear_segment this a f k (2 * k) ! 0) = Some (translation a)
          \<and> sp_xyz (linear_segment this a f k (2 * k) ! nat (sint k - 1))
              = Some (translation f))
       \<and> (2 \<le> sint k \<and> mat_det (linear_part fk) \<noteq> 0 \<longrightarrow>
            sp_wxyz (linear_segment this fk r k 0 ! 0)
              = Some (wxyz_of_quat (Quaterniond_of_matrix (linear_part fk))))
       \<and> (2 \<le> sint k \<and> mat_det (linear_part a) \<noteq> 0 \<longrightarrow>
            sp_wxyz (linear_segment this a f k (2 * k) ! 0)
              = Some (wxyz_of_quat (Quaterniond_of_matrix (linear_part a))))
       \<and> collision_terms (cost_infos P)
           = [\<lparr> cc_name = ''collision'', cc_term_type = TT_COST, cc_continuous = False,
                cc_first_step = k, cc_last_step = 2 * k - 1, cc_gap = 1,
                cc_info = createSafetyMarginDataVector k (25 / 1000) 20 \<rparr>]
       \<and> sint (2 * k - 1) = 2 * sint k - 1"
proof -
  define P where "P = projr (generatePlaceProblem this r a f k)"
  have inr: "generatePlaceProblem this r a f k = Inr P"
    by (simp add: P_def generatePlaceProblem_eq [OF tr])
  have steps: "sint (n_steps P) = 3 * sint k"
    using sint_thrice [OF k0 kmax] by (simp add: P_def generatePlaceProblem_eq [OF tr])
  have bc: "joint_constraint_terms (cnt_infos P)
           = [\<lparr> jc_term_type = TT_CNT, jc_timestep = 0, jc_name = ''start_pos_constraint'',
                jc_vals = getCurrentJointValues (this_env this) \<rparr>]"
    by (simp add: P_def generatePlaceProblem_eq [OF tr] joint_constraint_terms_StaticPose
        joint_constraint_terms_append)
  have seg: "pose_terms (cnt_infos P)
           = linear_segment this fk r k 0 @ linear_segment this a f k (2 * k)"
    by (simp add: P_def fk_def generatePlaceProblem_eq [OF tr] pose_terms_StaticPose
        pose_terms_append mult.commute)
  have len: "length (cnt_infos P) = 1 + length (pose_terms (cnt_infos P))"
    by (simp add: P_def generatePlaceProblem_eq [OF tr] pose_terms_StaticPose
        pose_terms_append)
  have c1: "int (length (linear_segment this fk r k 0)) = sint k"
    and c2: "int (length (linear_segment this a f k (2 * k))) = sint k"
    using k0 by (simp_all add: segment_length)
  have k2: "2 * k = k * 2"
    by simp
  have t1: "map (sint \<circ> sp_timestep) (linear_segment this fk r k 0) = [0..sint k - 1]"
    by (rule place_timesteps(1) [OF kmax])
  have t2: "map (sint \<circ> sp_timestep) (linear_segment this a f k (2 * k))
           = [2 * sint k..3 * sint k - 1]"
    unfolding k2 by (rule place_timesteps(2) [OF kmax])
  have pos: "map sp_xyz (linear_segment this fk r k 0)
              = map (\<lambda>j. Some (vec_add (translation fk)
                       (vec_scale (vec_div (vec_sub (translation r) (translation fk))
                                     (real_of_int (sint k - 1)))
                          (real_of_int j))))
                  [0..sint k - 1]
          \<and> sp_xyz (linear_segment this fk r k 0 ! 0) = Some (translation fk)
          \<and> sp_xyz (linear_segment this fk r k 0 ! nat (sint k - 1)) = Some (translation r)
          \<and> map sp_xyz (linear_segment this a f k (2 * k))
              = map (\<lambda>j. Some (vec_add (translation a)
                       (vec_scale (vec_div (vec_sub (translation f) (translation a))
                                     (real_of_int (sint k - 1)))
                          (real_of_int j))))
                  [0..sint k - 1]
          \<and> sp_xyz (linear_segment this a f k (2 * k) ! 0) = Some (translation a)
          \<and> sp_xyz (linear_segment this a f k (2 * k) ! nat (sint k - 1))
              = Some (translation f)"
    if "2 \<le> sint k"
    using segment_xyz [OF that] segment_first_xyz [OF that] segment_last_xyz [OF that]
    by blast
  have o1: "sp_wxyz (linear_segment this fk r k 0 ! 0)
              = Some (wxyz_of_quat (Quaterniond_of_matrix (linear_part fk)))"
    if "2 \<le> sint k" "mat_det (linear_part fk) \<noteq> 0"
    using that by (rule segment_first_wxyz)
  have o2: "sp_wxyz (linear_segment this a f k (2 * k) ! 0)
              = Some (wxyz_of_quat (Quaterniond_of_matrix (linear_part a)))"
    if "2 \<le> sint k" "mat_det (linear_part a) \<noteq> 0"
    using that by (rule segment_first_wxyz)
  have col: "collision_terms (cost_infos P)
           = [\<lparr> cc_name = ''collision'', cc_term_type = TT_COST, cc_continuous = False,
                cc_first_step = k, cc_last_step = 2 * k - 1, cc_gap = 1,
                cc_info = createSafetyMarginDataVector k (25 / 1000) 20 \<rparr>]"
    by (simp add: P_def generatePlaceProblem_eq [OF tr] collision_terms_append
        collision_terms_JointVel mult.commute)
  have "2 * sint k \<le> INT_MAX"
    using k0 kmax by simp
  then have two: "sint (k * 2) = 2 * sint k"
    using k0 by (intro sint_twice) simp_all
  have last: "sint (2 * k - 1) = 2 * sint k - 1"
    unfolding k2 using k0 kmax two sint_diff_no_overflow [of "k * 2" 1]
    by (simp add: INT_MAX_def)
  show ?thesis
    using inr steps bc seg len c1 c2 t1 t2 pos o1 o2 col last by blast
qed

text \<open>
  The amended claim in the small cell, with two steps per phase.
\<close>

theorem generatePlaceProblem_shape_witness:
  "transforms (getState (this_env (demo_this True)))
      (getBaseLinkName (this_kin (demo_this True))) = Some identity_pose
   \<and> 0 \<le> sint (2 :: c_int)
   \<and> 3 * sint (2 :: c_int) \<le> INT_MAX
   \<and> 2 \<le> sint (2 :: c_int)
   \<and> mat_det (linear_part identity_pose) \<noteq> 0
   \<and> (\<exists>P. generatePlaceProblem (demo_this True) quarter_turn_z identity_pose
             quarter_turn_z 2 = Inr P
        \<and> sint (n_steps P) = 6
        \<and> int (length (pose_terms (cnt_infos P))) = 4
        \<and> map (sint \<circ> sp_timestep) (pose_terms (cnt_infos P)) = [0, 1, 4, 5]
        \<and> sp_xyz (pose_terms (cnt_infos P) ! 0) = Some (translation identity_pose)
        \<and> sp_xyz (pose_terms (cnt_infos P) ! 1) = Some (translation quarter_turn_z)
        \<and> sp_wxyz (pose_terms (cnt_infos P) ! 0)
            = Some (wxyz_of_quat (Quaterniond_of_matrix (linear_part identity_pose)))
        \<and> sp_wxyz (pose_terms (cnt_infos P) ! 2)
            = Some (wxyz_of_quat (Quaterniond_of_matrix (linear_part identity_pose)))
        \<and> map (sint \<circ> cc_first_step) (collision_terms (cost_infos P)) = [2]
        \<and> map (sint \<circ> cc_last_step) (collision_terms (cost_infos P)) = [3])"
proof -
  have tr: "transforms (getState (this_env (demo_this True)))
      (getBaseLinkName (this_kin (demo_this True))) = Some identity_pose"
    by (rule demo_transforms)
  have h1: "0 \<le> sint (2 :: c_int)" by simp
  have h2: "3 * sint (2 :: c_int) \<le> INT_MAX" by (simp add: INT_MAX_def)
  have h3: "2 \<le> sint (2 :: c_int)" by simp
  have h4: "mat_det (linear_part identity_pose) \<noteq> 0" by (rule identity_det)
  have fk: "snd (calcFwdKin (this_kin (demo_this True)) identity_pose
                (getCurrentJointValues (this_env (demo_this True)))
                (this_ee_link (demo_this True)) (getState (this_env (demo_this True))))
      = identity_pose"
    by (simp add: demo_fk)
  define s1 where "s1 = linear_segment (demo_this True) identity_pose quarter_turn_z 2 0"
  define s2 where "s2 = linear_segment (demo_this True) identity_pose quarter_turn_z 2 (2 * 2)"
  note t = generatePlaceProblem_shape [OF tr h1 h2, of quarter_turn_z identity_pose
      quarter_turn_z, unfolded fk, folded s1_def s2_def]
  obtain P where P: "generatePlaceProblem (demo_this True) quarter_turn_z identity_pose
             quarter_turn_z 2 = Inr P"
    and steps: "sint (n_steps P) = 3 * sint (2 :: c_int)"
    and seg: "pose_terms (cnt_infos P) = s1 @ s2"
    and l1: "int (length s1) = sint (2 :: c_int)"
    and l2: "int (length s2) = sint (2 :: c_int)"
    and t1: "map (sint \<circ> sp_timestep) s1 = [0..sint (2 :: c_int) - 1]"
    and t2: "map (sint \<circ> sp_timestep) s2
        = [2 * sint (2 :: c_int)..3 * sint (2 :: c_int) - 1]"
    and pos: "2 \<le> sint (2 :: c_int) \<longrightarrow>
          map sp_xyz s1
              = map (\<lambda>j. Some (vec_add (translation identity_pose)
                       (vec_scale (vec_div (vec_sub (translation quarter_turn_z)
                                              (translation identity_pose))
                                     (real_of_int (sint (2 :: c_int) - 1)))
                          (real_of_int j))))
                  [0..sint (2 :: c_int) - 1]
          \<and> sp_xyz (s1 ! 0) = Some (translation identity_pose)
          \<and> sp_xyz (s1 ! nat (sint (2 :: c_int) - 1)) = Some (translation quarter_turn_z)
          \<and> map sp_xyz s2
              = map (\<lambda>j. Some (vec_add (translation identity_pose)
                       (vec_scale (vec_div (vec_sub (translation quarter_turn_z)
                                              (translation identity_pose))
                                     (real_of_int (sint (2 :: c_int) - 1)))
                          (real_of_int j))))
                  [0..sint (2 :: c_int) - 1]
          \<and> sp_xyz (s2 ! 0) = Some (translation identity_pose)
          \<and> sp_xyz (s2 ! nat (sint (2 :: c_int) - 1)) = Some (translation quarter_turn_z)"
    and ori: "2 \<le> sint (2 :: c_int) \<and> mat_det (linear_part identity_pose) \<noteq> 0 \<longrightarrow>
            sp_wxyz (s1 ! 0)
              = Some (wxyz_of_quat (Quaterniond_of_matrix (linear_part identity_pose)))"
    and ori2: "2 \<le> sint (2 :: c_int) \<and> mat_det (linear_part identity_pose) \<noteq> 0 \<longrightarrow>
            sp_wxyz (s2 ! 0)
              = Some (wxyz_of_quat (Quaterniond_of_matrix (linear_part identity_pose)))"
    and col: "collision_terms (cost_infos P)
           = [\<lparr> cc_name = ''collision'', cc_term_type = TT_COST, cc_continuous = False,
                cc_first_step = 2, cc_last_step = 2 * 2 - 1, cc_gap = 1,
                cc_info = createSafetyMarginDataVector 2 (25 / 1000) 20 \<rparr>]"
    using t by blast
  have len1: "length s1 = 2" and len2: "length s2 = 2"
    using l1 l2 by simp_all
  have a: "sint (n_steps P) = 6"
    using steps by simp
  have b: "int (length (pose_terms (cnt_infos P))) = 4"
    using len1 len2 by (simp add: seg)
  have "[0..sint (2 :: c_int) - 1] = [0, 1]"
    "[2 * sint (2 :: c_int)..3 * sint (2 :: c_int) - 1] = [4, 5]"
    by (simp_all add: upto_rec1)
  then have c: "map (sint \<circ> sp_timestep) (pose_terms (cnt_infos P)) = [0, 1, 4, 5]"
    using t1 t2 by (simp add: seg)
  have d: "sp_xyz (pose_terms (cnt_infos P) ! 0) = Some (translation identity_pose)"
    using pos h3 len1 by (simp add: seg nth_append)
  have "sp_xyz (s1 ! nat (sint (2 :: c_int) - 1)) = Some (translation quarter_turn_z)"
    using pos h3 by blast
  then have e: "sp_xyz (pose_terms (cnt_infos P) ! 1) = Some (translation quarter_turn_z)"
    using len1 by (simp add: seg nth_append)
  have f: "sp_wxyz (pose_terms (cnt_infos P) ! 0)
            = Some (wxyz_of_quat (Quaterniond_of_matrix (linear_part identity_pose)))"
    using ori h3 h4 len1 by (simp add: seg nth_append)
  have f2: "sp_wxyz (pose_terms (cnt_infos P) ! 2)
            = Some (wxyz_of_quat (Quaterniond_of_matrix (linear_part identity_pose)))"
    using ori2 h3 h4 len1 by (simp add: seg nth_append)
  have g: "map (sint \<circ> cc_first_step) (collision_terms (cost_infos P)) = [2]"
    "map (sint \<circ> cc_last_step) (collision_terms (cost_infos P)) = [3]"
    by (simp_all add: col)
  show ?thesis
    by (intro conjI exI [of _ P] tr h1 h2 h3 h4 P a b c d e f f2 g)
qed

text \<open>
  Claim C3 speaks of every number \<open>k\<close> of steps per phase. In the small cell, with one
  step the one pose constraint of the pick problem has no position; with \<open>1073741824\<close>
  steps the number of steps \<open>2 k\<close> wraps round to \<open>- 2147483648\<close>; and with two steps
  from a half turn about x to a quarter turn about z the segment ends on the quaternion
  \<open>(- sqrt 2 / 2, 0, 0, sqrt 2 / 2)\<close>, where the final pose has
  \<open>(sqrt 2 / 2, 0, 0, sqrt 2 / 2)\<close>.
\<close>

theorem generatePickProblem_counterexample:
  "map sp_xyz (pose_terms (cnt_infos
      (generatePickProblem (demo_this True) identity_pose quarter_turn_z 1))) = [None]
   \<and> sint (n_steps (generatePickProblem (demo_this True) identity_pose quarter_turn_z
        1073741824)) = - 2147483648
   \<and> map sp_wxyz (pose_terms (cnt_infos
        (generatePickProblem (demo_this True) half_turn_x quarter_turn_z 2)))
       = [Some (Vector4d 0 1 0 0), Some (Vector4d (- (sqrt 2 / 2)) 0 0 (sqrt 2 / 2))]
   \<and> wxyz_of_quat (Quaterniond_of_matrix (linear_part quarter_turn_z))
       = Vector4d (sqrt 2 / 2) 0 0 (sqrt 2 / 2)"
proof -
  have one: "map sp_xyz (pose_terms (cnt_infos
      (generatePickProblem (demo_this True) identity_pose quarter_turn_z 1))) = [None]"
    by (simp add: generatePickProblem_eq pose_terms_StaticPose segment_one_step
        pose_constraint_def linear_motion_locals_def vec_div_int_def)
  have big: "sint (n_steps (generatePickProblem (demo_this True) identity_pose quarter_turn_z
        1073741824)) = - 2147483648"
    by (simp add: generatePickProblem_eq)
  have w: "map sp_wxyz (pose_terms (cnt_infos
        (generatePickProblem (demo_this True) half_turn_x quarter_turn_z 2)))
       = [Some (Vector4d 0 1 0 0), Some (Vector4d (- (sqrt 2 / 2)) 0 0 (sqrt 2 / 2))]"
    unfolding generatePickProblem_eq ProblemConstructionInfo.simps pose_terms.simps
      pose_terms_StaticPose segment_two_steps half_to_quarter_locals
    by (simp add: pose_constraint_def quat_mul_def)
  have e: "Quaterniond_of_matrix (Matrix3d 0 (- 1) 0 1 0 0 0 0 1)
      = Quaterniond (sqrt 2 / 2) 0 0 (sqrt 2 / 2)"
    by (simp add: Quaterniond_of_matrix_def mat_trace_def Let_def real_div_sqrt)
  show ?thesis
    using one big w by (simp add: e wxyz_of_quat_def quarter_turn_z_def)
qed

text \<open>
  Claim C3 as amended. For \<open>0 \<le> k\<close> with \<open>2 k \<le> INT_MAX\<close>, \<open>generatePickProblem\<close> gives
  a problem of \<open>2 k\<close> steps whose constraints are one joint constraint at step \<open>0\<close> and
  then the \<open>k\<close> pose constraints of one linear segment, at the time steps
  \<open>k .. 2 k - 1\<close>; its costs are one joint velocity cost for each joint of the manipulator
  and then one collision cost from step \<open>0\<close> to step \<open>k\<close>. For \<open>2 \<le> k\<close> the positions
  of the segment go by equal steps from that of the approach pose to that of the final
  pose, and its first orientation is the quaternion of the approach rotation when that is
  invertible. Nothing is said of the later orientations.
\<close>

theorem generatePickProblem_shape:
  fixes this a f k
  assumes k0: "0 \<le> sint k" and kmax: "2 * sint k \<le> INT_MAX"
  defines "P \<equiv> generatePickProblem this a f k"
  shows "sint (n_steps P) = 2 * sint k
       \<and> joint_constraint_terms (cnt_infos P)
           = [\<lparr> jc_term_type = TT_CNT, jc_timestep = 0, jc_name = ''start_pos_constraint'',
                jc_vals = getCurrentJointValues (this_env this) \<rparr>]
       \<and> pose_terms (cnt_infos P) = linear_segment this a f k k
       \<and> length (cnt_infos P) = 1 + length (pose_terms (cnt_infos P))
       \<and> int (length (pose_terms (cnt_infos P))) = sint k
       \<and> map (sint \<circ> sp_timestep) (pose_terms (cnt_infos P)) = [sint k..2 * sint k - 1]
       \<and> (2 \<le> sint k \<longrightarrow>
            map sp_xyz (pose_terms (cnt_infos P))
              = map (\<lambda>j. Some (vec_add (translation a)
                       (vec_scale (vec_div (vec_sub (translation f) (translation a))
                                     (real_of_int (sint k - 1)))
                          (real_of_int j))))
                  [0..sint k - 1]
          \<and> sp_xyz (pose_terms (cnt_infos P) ! 0) = Some (translation a)
          \<and> sp_xyz (pose_terms (cnt_infos P) ! nat (sint k - 1)) = Some (translation f))
       \<and> (2 \<le> sint k \<and> mat_det (linear_part a) \<noteq> 0 \<longrightarrow>
            sp_wxyz (pose_terms (cnt_infos P) ! 0)
              = Some (wxyz_of_quat (Quaterniond_of_matrix (linear_part a))))
       \<and> length (joint_vel_terms (cost_infos P)) = length (getJointNames (this_kin this))
       \<and> length (cost_infos P) = length (joint_vel_terms (cost_infos P)) + 1
       \<and> collision_terms (cost_infos P)
           = [\<lparr> cc_name = ''collision'', cc_term_type = TT_COST, cc_continuous = False,
                cc_first_step = 0, cc_last_step = k, cc_gap = 1,
                cc_info = createSafetyMarginDataVector (k + 1) (25 / 1000) 20 \<rparr>]"
proof -
  have seg: "pose_terms (cnt_infos P) = linear_segment this a f k k"
    by (simp add: P_def generatePickProblem_eq pose_terms_StaticPose)
  have steps: "sint (n_steps P) = 2 * sint k"
    using sint_twice [OF k0 kmax] by (simp add: P_def generatePickProblem_eq)
  have bc: "joint_constraint_terms (cnt_infos P)
           = [\<lparr> jc_term_type = TT_CNT, jc_timestep = 0, jc_name = ''start_pos_constraint'',
                jc_vals = getCurrentJointValues (this_env this) \<rparr>]"
    by (simp add: P_def generatePickProblem_eq joint_constraint_terms_StaticPose)
  have len: "length (cnt_infos P) = 1 + length (pose_terms (cnt_infos P))"
    by (simp add: P_def generatePickProblem_eq pose_terms_StaticPose)
  have cnt: "int (length (pose_terms (cnt_infos P))) = sint k"
    using k0 by (simp add: seg segment_length)
  have "sint k + sint k - 1 \<le> INT_MAX"
    using kmax by simp
  then have "map (sint \<circ> sp_timestep) (linear_segment this a f k k)
      = [sint k..sint k + sint k - 1]"
    by (rule segment_timesteps)
  then have ts: "map (sint \<circ> sp_timestep) (pose_terms (cnt_infos P)) = [sint k..2 * sint k - 1]"
    by (simp add: seg)
  have pos: "map sp_xyz (pose_terms (cnt_infos P))
              = map (\<lambda>j. Some (vec_add (translation a)
                       (vec_scale (vec_div (vec_sub (translation f) (translation a))
                                     (real_of_int (sint k - 1)))
                          (real_of_int j))))
                  [0..sint k - 1]
          \<and> sp_xyz (pose_terms (cnt_infos P) ! 0) = Some (translation a)
          \<and> sp_xyz (pose_terms (cnt_infos P) ! nat (sint k - 1)) = Some (translation f)"
    if "2 \<le> sint k"
    unfolding seg using segment_xyz [OF that] segment_first_xyz [OF that]
      segment_last_xyz [OF that] by blast
  have ori: "sp_wxyz (pose_terms (cnt_infos P) ! 0)
              = Some (wxyz_of_quat (Quaterniond_of_matrix (linear_part a)))"
    if "2 \<le> sint k" "mat_det (linear_part a) \<noteq> 0"
    unfolding seg using that by (rule segment_first_wxyz)
  have jv: "length (joint_vel_terms (cost_infos P)) = length (getJointNames (this_kin this))"
    by (simp add: P_def generatePickProblem_eq joint_vel_terms_append joint_vel_terms_JointVel
        joint_vel_costs_length)
  have costs: "length (cost_infos P) = length (joint_vel_terms (cost_infos P)) + 1"
    by (simp add: P_def generatePickProblem_eq joint_vel_terms_append joint_vel_terms_JointVel)
  have col: "collision_terms (cost_infos P)
           = [\<lparr> cc_name = ''collision'', cc_term_type = TT_COST, cc_continuous = False,
                cc_first_step = 0, cc_last_step = k, cc_gap = 1,
                cc_info = createSafetyMarginDataVector (k + 1) (25 / 1000) 20 \<rparr>]"
    by (simp add: P_def generatePickProblem_eq collision_terms_append collision_terms_JointVel)
  show ?thesis
    using steps bc seg len cnt ts pos ori jv costs col by blast
qed

text \<open>
  The amended claim in the small cell, with two steps per phase.
\<close>

theorem generatePickProblem_shape_witness:
  "0 \<le> sint (2 :: c_int)
   \<and> 2 * sint (2 :: c_int) \<le> INT_MAX
   \<and> 2 \<le> sint (2 :: c_int)
   \<and> mat_det (linear_part identity_pose) \<noteq> 0
   \<and> sint (n_steps (generatePickProblem (demo_this True) identity_pose quarter_turn_z 2)) = 4
   \<and> int (length (pose_terms (cnt_infos
        (generatePickProblem (demo_this True) identity_pose quarter_turn_z 2)))) = 2
   \<and> map (sint \<circ> sp_timestep) (pose_terms (cnt_infos
        (generatePickProblem (demo_this True) identity_pose quarter_turn_z 2))) = [2, 3]
   \<and> sp_xyz (pose_terms (cnt_infos
        (generatePickProblem (demo_this True) identity_pose quarter_turn_z 2)) ! 0)
       = Some (translation identity_pose)
   \<and> sp_xyz (pose_terms (cnt_infos
        (generatePickProblem (demo_this True) identity_pose quarter_turn_z 2)) ! 1)
       = Some (translation quarter_turn_z)
   \<and> sp_wxyz (pose_terms (cnt_infos
        (generatePickProblem (demo_this True) identity_pose quarter_turn_z 2)) ! 0)
       = Some (wxyz_of_quat (Quaterniond_of_matrix (linear_part identity_pose)))"
proof -
  have h1: "0 \<le> sint (2 :: c_int)" by simp
  have h2: "2 * sint (2 :: c_int) \<le> INT_MAX" by (simp add: INT_MAX_def)
  have h3: "2 \<le> sint (2 :: c_int)" by simp
  have h4: "mat_det (linear_part identity_pose) \<noteq> 0" by (rule identity_det)
  have u: "[sint (2 :: c_int)..2 * sint (2 :: c_int) - 1] = [2, 3]"
    by (simp add: upto_rec1)
  have n: "nat (sint (2 :: c_int) - 1) = 1" "2 * sint (2 :: c_int) = 4" "sint (2 :: c_int) = 2"
    by simp_all
  note t = generatePickProblem_shape [OF h1 h2, of "demo_this True" identity_pose
      quarter_turn_z]
  have "sint (n_steps (generatePickProblem (demo_this True) identity_pose quarter_turn_z 2)) = 4"
    using t n(2) by metis
  moreover have "int (length (pose_terms (cnt_infos
        (generatePickProblem (demo_this True) identity_pose quarter_turn_z 2)))) = 2"
    using t n(3) by metis
  moreover have "map (sint \<circ> sp_timestep) (pose_terms (cnt_infos
        (generatePickProblem (demo_this True) identity_pose quarter_turn_z 2))) = [2, 3]"
    using t u by metis
  moreover have "sp_xyz (pose_terms (cnt_infos
        (generatePickProblem (demo_this True) identity_pose quarter_turn_z 2)) ! 0)
       = Some (translation identity_pose)"
    using t h3 by blast
  moreover have "sp_xyz (pose_terms (cnt_infos
        (generatePickProblem (demo_this True) identity_pose quarter_turn_z 2)) ! 1)
       = Some (translation quarter_turn_z)"
    using t h3 n(1) by metis
  moreover have "sp_wxyz (pose_terms (cnt_infos
        (generatePickProblem (demo_this True) identity_pose quarter_turn_z 2)) ! 0)
       = Some (wxyz_of_quat (Quaterniond_of_matrix (linear_part identity_pose)))"
    using t h3 h4 by blast
  ultimately show ?thesis
    using h1 h2 h3 h4 by blast
qed

text \<open>
  Claim C8 speaks of every first time step. From the first time step \<open>2147483647\<close> the
  second of two time steps wraps round to \<open>- 2147483648\<close>: the time steps do not
  increase.
\<close>

theorem addLinearMotion_timestep_wraps_counterexample:
  "map (sint \<circ> sp_timestep)
     (linear_segment (demo_this True) identity_pose quarter_turn_z 2 2147483647)
     = [2147483647, - 2147483648]"
  by (simp add: segment_two_steps pose_constraint_def)

text \<open>
  Claim C8 as amended. For \<open>2 \<le> N\<close> and a first time step \<open>f\<close> with
  \<open>f + N - 1 \<le> INT_MAX\<close>, \<open>addLinearMotion\<close> appends exactly \<open>N\<close> pose constraints to the
  constraints it was given; their time steps are \<open>f, f + 1, .., f + N - 1\<close> in this order
  and the name of each is \<open>pose_\<close> followed by the decimal text of its time step. The
  names of a segment are distinct, and so are the names of all the pose constraints of a
  pick problem, and of a place problem with \<open>3 k \<le> INT_MAX\<close>.
\<close>

theorem addLinearMotion_segment:
  assumes "2 \<le> sint N" and "sint f + sint N - 1 \<le> INT_MAX"
  shows "cnt_infos (addLinearMotion this pci s e N f)
           = cnt_infos pci @ map StaticPose (linear_segment this s e N f)
       \<and> int (length (linear_segment this s e N f)) = sint N
       \<and> map (sint \<circ> sp_timestep) (linear_segment this s e N f)
           = [sint f..sint f + sint N - 1]
       \<and> sorted_wrt (<) (map (sint \<circ> sp_timestep) (linear_segment this s e N f))
       \<and> map sp_name (linear_segment this s e N f)
           = map (\<lambda>t. ''pose_'' @ to_string t) [sint f..sint f + sint N - 1]
       \<and> distinct (map sp_name (linear_segment this s e N f))
       \<and> distinct (map sp_name (pose_terms (cnt_infos (generatePickProblem this a b k))))
       \<and> (3 * sint k \<le> INT_MAX
            \<longrightarrow> (\<forall>P. generatePlaceProblem this r a b k = Inr P
                  \<longrightarrow> distinct (map sp_name (pose_terms (cnt_infos P)))))"
proof -
  have place: "distinct (map sp_name (pose_terms (cnt_infos P)))"
    if P: "generatePlaceProblem this r a b k = Inr P" and k: "3 * sint k \<le> INT_MAX" for P
  proof (cases "transforms (getState (this_env this)) (getBaseLinkName (this_kin this))")
    case None
    then show ?thesis
      using P by (simp add: generatePlaceProblem_missing)
  next
    case (Some cb)
    show ?thesis
      using P two_segments_names_distinct [OF k] unfolding generatePlaceProblem_eq [OF Some]
      by (auto simp add: pose_terms_StaticPose simp del: map_append distinct_append)
  qed
  have pick: "distinct (map sp_name (pose_terms (cnt_infos (generatePickProblem this a b k))))"
    by (simp add: generatePickProblem_eq pose_terms_StaticPose segment_names_distinct)
  have len: "int (length (linear_segment this s e N f)) = sint N"
    using assms(1) by (simp add: segment_length)
  have ts: "map (sint \<circ> sp_timestep) (linear_segment this s e N f)
           = [sint f..sint f + sint N - 1]"
    using assms(2) by (rule segment_timesteps)
  have nm: "map sp_name (linear_segment this s e N f)
           = map (\<lambda>t. ''pose_'' @ to_string t) [sint f..sint f + sint N - 1]"
    unfolding segment_names ts ..
  have srt: "sorted_wrt (<) (map (sint \<circ> sp_timestep) (linear_segment this s e N f))"
    unfolding ts by (rule sorted_wrt_upto)
  have cnt: "cnt_infos (addLinearMotion this pci s e N f)
           = cnt_infos pci @ map StaticPose (linear_segment this s e N f)"
    by (simp add: addLinearMotion_eq)
  show ?thesis
    using place pick len nm srt cnt ts segment_names_distinct
    by blast
qed

text \<open>
  The amended claim for three steps from time step \<open>3\<close>, and for the place problem of
  the small cell.
\<close>

theorem addLinearMotion_segment_witness:
  "2 \<le> sint (3 :: c_int)
   \<and> sint (3 :: c_int) + sint (3 :: c_int) - 1 \<le> INT_MAX
   \<and> 3 * sint (3 :: c_int) \<le> INT_MAX
   \<and> int (length (linear_segment (demo_this True) identity_pose quarter_turn_z 3 3)) = 3
   \<and> map (sint \<circ> sp_timestep)
        (linear_segment (demo_this True) identity_pose quarter_turn_z 3 3) = [3, 4, 5]
   \<and> distinct (map sp_name (linear_segment (demo_this True) identity_pose quarter_turn_z 3 3))
   \<and> generatePlaceProblem (demo_this True) quarter_turn_z identity_pose quarter_turn_z 3
       = Inr (projr (generatePlaceProblem (demo_this True) quarter_turn_z identity_pose
                       quarter_turn_z 3))
   \<and> distinct (map sp_name (pose_terms (cnt_infos
         (projr (generatePlaceProblem (demo_this True) quarter_turn_z identity_pose
                   quarter_turn_z 3)))))"
proof -
  have h1: "2 \<le> sint (3 :: c_int)" by simp
  have h2: "sint (3 :: c_int) + sint (3 :: c_int) - 1 \<le> INT_MAX"
    by (simp add: INT_MAX_def)
  have h3: "3 * sint (3 :: c_int) \<le> INT_MAX"
    by (simp add: INT_MAX_def)
  have inr: "generatePlaceProblem (demo_this True) quarter_turn_z identity_pose quarter_turn_z 3
       = Inr (projr (generatePlaceProblem (demo_this True) quarter_turn_z identity_pose
                       quarter_turn_z 3))"
    by (simp add: generatePlaceProblem_eq [OF demo_transforms])
  note t = addLinearMotion_segment [OF h1 h2, where this = "demo_this True"
      and s = identity_pose and e = quarter_turn_z and r = quarter_turn_z
      and a = identity_pose and b = quarter_turn_z and k = 3]
  have u: "[sint (3 :: c_int)..sint (3 :: c_int) + sint (3 :: c_int) - 1] = [3, 4, 5]"
    by (simp add: upto_rec1)
  have "int (length (linear_segment (demo_this True) identity_pose quarter_turn_z 3 3)) = 3"
    using t by simp
  moreover have "map (sint \<circ> sp_timestep) (linear_segment (demo_this True) identity_pose
      quarter_turn_z 3 3) = [3, 4, 5]"
    using t u by metis
  moreover have "distinct (map sp_name (linear_segment (demo_this True) identity_pose
      quarter_turn_z 3 3))"
    using t by blast
  moreover have "distinct (map sp_name (pose_terms (cnt_infos
         (projr (generatePlaceProblem (demo_this True) quarter_turn_z identity_pose
                   quarter_turn_z 3)))))"
    using t h3 inr by blast
  ultimately show ?thesis
    using h1 h2 h3 inr by blast
qed

section \<open>What the code does not check\<close>

text \<open>
  Claim C4 says that \<open>addLinearMotion\<close> called with one step fails with an error, adds no
  term and does not divide by zero. The function has no error to report: with one step it
  adds one pose constraint, whose position and orientation come from a division by
  \<open>num_steps - 1 = 0\<close>.
\<close>

theorem addLinearMotion_one_step_counterexample:
  "length (cnt_infos (addLinearMotion (demo_this True) (fresh_pci (demo_this True))
      identity_pose quarter_turn_z 1 0)) = 1
   \<and> map sp_timestep (linear_segment (demo_this True) identity_pose quarter_turn_z 1 0) = [0]
   \<and> map sp_xyz (linear_segment (demo_this True) identity_pose quarter_turn_z 1 0) = [None]
   \<and> map sp_wxyz (linear_segment (demo_this True) identity_pose quarter_turn_z 1 0) = [None]"
  by (simp add: addLinearMotion_eq fresh_pci_def linear_segment_eq pose_constraint_def
      linear_motion_locals_def vec_div_int_def div_int_def Let_def split: option.split)

text \<open>
  Claim C4 as amended: called with fewer than two steps, \<open>addLinearMotion\<close> reports
  nothing and appends one pose constraint for each round of its loop: one, at the first
  time step, for one step, and none for fewer.
\<close>

theorem addLinearMotion_few_steps:
  assumes "n <s 2"
  shows "cnt_infos (addLinearMotion this pci s e n f)
           = cnt_infos pci @ map StaticPose (linear_segment this s e n f)
       \<and> map sp_timestep (linear_segment this s e n f) = (if n = 1 then [f] else [])"
proof -
  have lt: "sint n < 2"
    using assms by (simp add: word_sless_alt)
  have one: "sint n = 1 \<longleftrightarrow> n = 1"
    using sint_inj [of n 1] by auto
  have "[0..sint n - 1] = (if n = 1 then [0] else [])"
    using lt one by auto
  then show ?thesis
    by (simp add: addLinearMotion_eq segment_timesteps_word)
qed

text \<open>
  The amended claim for one step from time step \<open>7\<close>.
\<close>

theorem addLinearMotion_few_steps_witness:
  "(1::c_int) <s 2
   \<and> cnt_infos (addLinearMotion (demo_this True) (fresh_pci (demo_this True))
        identity_pose quarter_turn_z 1 7)
       = cnt_infos (fresh_pci (demo_this True))
         @ map StaticPose (linear_segment (demo_this True) identity_pose quarter_turn_z 1 7)
   \<and> map sp_timestep (linear_segment (demo_this True) identity_pose quarter_turn_z 1 7) = [7]"
proof -
  have h: "(1::c_int) <s 2" by (simp add: word_sless_alt)
  show ?thesis
    using h addLinearMotion_few_steps [OF h, of "demo_this True" "fresh_pci (demo_this True)"
        identity_pose quarter_turn_z 7]
    by simp
qed

text \<open>
  Claim C5 says that \<open>generatePlaceProblem\<close> stops with a kinematics error when the
  forward kinematics query fails. In the small cell whose query returns \<open>false\<close> the
  problem is assembled all the same: six steps, five constraints.
\<close>

theorem generatePlaceProblem_fk_failure_counterexample:
  "fst (calcFwdKin (this_kin (demo_this False)) identity_pose
          (getCurrentJointValues (this_env (demo_this False)))
          (this_ee_link (demo_this False)) (getState (this_env (demo_this False)))) = False
   \<and> \<not> isl (generatePlaceProblem (demo_this False) quarter_turn_z identity_pose
              quarter_turn_z 2)
   \<and> n_steps (projr (generatePlaceProblem (demo_this False) quarter_turn_z identity_pose
                       quarter_turn_z 2)) = 6
   \<and> length (cnt_infos (projr (generatePlaceProblem (demo_this False) quarter_turn_z
                       identity_pose quarter_turn_z 2))) = 5"
  by (simp add: generatePlaceProblem_eq [OF demo_transforms] demo_fk segment_length)

text \<open>
  Claim C5 as amended: \<open>generatePlaceProblem\<close> does not read what \<open>calcFwdKin\<close>
  returns. When the query fails the problem is assembled as ever, its first segment
  starting from the pose that the call left behind (the one failure passed to the caller
  is the missing transform of the base link).
\<close>

theorem generatePlaceProblem_ignores_fk_flag:
  assumes tr: "transforms (getState (this_env this)) (getBaseLinkName (this_kin this))
                 = Some change_base"
    and fail: "\<not> fst (calcFwdKin (this_kin this) change_base
                      (getCurrentJointValues (this_env this)) (this_ee_link this)
                      (getState (this_env this)))"
  shows "\<exists>P. generatePlaceProblem this r a f k = Inr P
       \<and> n_steps P = 3 * k
       \<and> pose_terms (cnt_infos P)
           = linear_segment this
               (snd (calcFwdKin (this_kin this) change_base
                       (getCurrentJointValues (this_env this)) (this_ee_link this)
                       (getState (this_env this)))) r k 0
             @ linear_segment this a f k (2 * k)
       \<and> length (cnt_infos P) = 1 + length (pose_terms (cnt_infos P))"
  unfolding generatePlaceProblem_eq [OF tr]
  by (simp add: pose_terms_StaticPose pose_terms_append mult.commute)

text \<open>
  The amended claim in the small cell whose query fails.
\<close>

theorem generatePlaceProblem_ignores_fk_flag_witness:
  "transforms (getState (this_env (demo_this False)))
      (getBaseLinkName (this_kin (demo_this False))) = Some identity_pose
   \<and> \<not> fst (calcFwdKin (this_kin (demo_this False)) identity_pose
              (getCurrentJointValues (this_env (demo_this False)))
              (this_ee_link (demo_this False)) (getState (this_env (demo_this False))))
   \<and> (\<exists>P. generatePlaceProblem (demo_this False) quarter_turn_z identity_pose
             quarter_turn_z 2 = Inr P
        \<and> n_steps P = 3 * 2
        \<and> pose_terms (cnt_infos P)
            = linear_segment (demo_this False)
                (snd (calcFwdKin (this_kin (demo_this False)) identity_pose
                        (getCurrentJointValues (this_env (demo_this False)))
                        (this_ee_link (demo_this False))
                        (getState (this_env (demo_this False))))) quarter_turn_z 2 0
              @ linear_segment (demo_this False) identity_pose quarter_turn_z 2 (2 * 2)
        \<and> length (cnt_infos P) = 1 + length (pose_terms (cnt_infos P)))"
proof -
  have tr: "transforms (getState (this_env (demo_this False)))
      (getBaseLinkName (this_kin (demo_this False))) = Some identity_pose"
    by (rule demo_transforms)
  have fail: "\<not> fst (calcFwdKin (this_kin (demo_this False)) identity_pose
              (getCurrentJointValues (this_env (demo_this False)))
              (this_ee_link (demo_this False)) (getState (this_env (demo_this False))))"
    by (simp add: demo_fk)
  show ?thesis
    using tr fail
      generatePlaceProblem_ignores_fk_flag [OF tr fail, of quarter_turn_z identity_pose
        quarter_turn_z 2]
    by blast
qed

section \<open>Joint velocity costs and the boundary constraint\<close>

text \<open>
  Claim C9. \<open>addJointVelCost\<close> does not use its coefficient: two calls that differ in it
  give the same result, and every joint velocity cost carries the one coefficient \<open>5\<close>.
  The joint velocity costs of a pick problem and of a place problem are those of the call
  with the coefficient \<open>5\<close>, over \<open>2 k\<close> and \<open>3 k\<close> steps.
\<close>

theorem addJointVelCost_coeff_unused:
  "addJointVelCost this pci c = addJointVelCost this pci c'
   \<and> cost_infos (addJointVelCost this pci c)
       = cost_infos pci @ map JointVel (joint_vel_costs this (n_steps pci) c)
   \<and> (\<forall>v \<in> set (joint_vel_costs this steps c). jv_coeffs v = [5])
   \<and> joint_vel_terms (cost_infos (generatePickProblem this a f k))
       = joint_vel_costs this (k * 2) 5
   \<and> (\<forall>P. generatePlaceProblem this r a f k = Inr P
        \<longrightarrow> joint_vel_terms (cost_infos P) = joint_vel_costs this (k * 3) 5)"
proof -
  have place: "joint_vel_terms (cost_infos P) = joint_vel_costs this (k * 3) 5"
    if P: "generatePlaceProblem this r a f k = Inr P" for P
  proof (cases "transforms (getState (this_env this)) (getBaseLinkName (this_kin this))")
    case None
    then show ?thesis
      using P by (simp add: generatePlaceProblem_missing)
  next
    case (Some cb)
    show ?thesis
      using P unfolding generatePlaceProblem_eq [OF Some]
      by (auto simp add: joint_vel_terms_append joint_vel_terms_JointVel)
  qed
  have pick: "joint_vel_terms (cost_infos (generatePickProblem this a f k))
       = joint_vel_costs this (k * 2) 5"
    by (simp add: generatePickProblem_eq joint_vel_terms_append joint_vel_terms_JointVel)
  have same: "addJointVelCost this pci c = addJointVelCost this pci c'"
    by (simp add: addJointVelCost_def)
  have five: "\<forall>v \<in> set (joint_vel_costs this steps c). jv_coeffs v = [5]"
    by (auto simp add: joint_vel_costs_eq joint_vel_info_def)
  have cost: "cost_infos (addJointVelCost this pci c)
       = cost_infos pci @ map JointVel (joint_vel_costs this (n_steps pci) c)"
    by (simp add: addJointVelCost_eq)
  show ?thesis
    using place pick same five cost by blast
qed

text \<open>
  The theorem in the small cell, for a call with the coefficient \<open>7\<close>.
\<close>

theorem addJointVelCost_coeff_unused_witness:
  "joint_vel_costs (demo_this True) 4 7 ! 0 \<in> set (joint_vel_costs (demo_this True) 4 7)
   \<and> jv_coeffs (joint_vel_costs (demo_this True) 4 7 ! 0) = [5]
   \<and> generatePlaceProblem (demo_this True) quarter_turn_z identity_pose quarter_turn_z 3
       = Inr (projr (generatePlaceProblem (demo_this True) quarter_turn_z identity_pose
                       quarter_turn_z 3))
   \<and> joint_vel_terms (cost_infos (projr (generatePlaceProblem (demo_this True)
         quarter_turn_z identity_pose quarter_turn_z 3)))
       = joint_vel_costs (demo_this True) (3 * 3) 5"
proof -
  have inr: "generatePlaceProblem (demo_this True) quarter_turn_z identity_pose quarter_turn_z 3
       = Inr (projr (generatePlaceProblem (demo_this True) quarter_turn_z identity_pose
                       quarter_turn_z 3))"
    by (simp add: generatePlaceProblem_eq [OF demo_transforms])
  have mem: "joint_vel_costs (demo_this True) 4 7 ! 0 \<in> set (joint_vel_costs (demo_this True) 4 7)"
    by (rule nth_mem) (simp add: joint_vel_costs_length demo_this_fields demo_kin_def)
  note t = addJointVelCost_coeff_unused [where this = "demo_this True" and steps = 4
      and c = 7 and r = quarter_turn_z and a = identity_pose and f = quarter_turn_z and k = 3]
  show ?thesis
    using inr mem t by simp
qed

text \<open>
  Claim C10. In a pick problem and in a place problem the one joint constraint holds the
  joint values of the whole robot (the query without argument), the stationary
  initialisation those of the manipulator (the query by name). In the small cell the
  first has three values, the second two, as many as the manipulator has joints.
\<close>

theorem boundary_constraint_whole_robot:
  "joint_constraint_terms (cnt_infos (generatePickProblem this a f k))
     = [\<lparr> jc_term_type = TT_CNT, jc_timestep = 0, jc_name = ''start_pos_constraint'',
          jc_vals = getCurrentJointValues (this_env this) \<rparr>]
   \<and> init_type (generatePickProblem this a f k) = STATIONARY
   \<and> init_data (generatePickProblem this a f k)
       = getCurrentJointValuesOf (this_env this) (getName (this_kin this))
   \<and> (\<forall>P. generatePlaceProblem this r a f k = Inr P
        \<longrightarrow> joint_constraint_terms (cnt_infos P)
              = [\<lparr> jc_term_type = TT_CNT, jc_timestep = 0,
                   jc_name = ''start_pos_constraint'',
                   jc_vals = getCurrentJointValues (this_env this) \<rparr>]
          \<and> init_type P = STATIONARY
          \<and> init_data P = getCurrentJointValuesOf (this_env this) (getName (this_kin this)))
   \<and> map (length \<circ> jc_vals) (joint_constraint_terms (cnt_infos
         (generatePickProblem (demo_this True) identity_pose identity_pose 2))) = [3]
   \<and> length (init_data (generatePickProblem (demo_this True) identity_pose identity_pose 2))
       = 2
   \<and> length (getJointNames (this_kin (demo_this True))) = 2"
proof -
  have place: "joint_constraint_terms (cnt_infos P)
              = [\<lparr> jc_term_type = TT_CNT, jc_timestep = 0,
                   jc_name = ''start_pos_constraint'',
                   jc_vals = getCurrentJointValues (this_env this) \<rparr>]
          \<and> init_type P = STATIONARY
          \<and> init_data P = getCurrentJointValuesOf (this_env this) (getName (this_kin this))"
    if P: "generatePlaceProblem this r a f k = Inr P" for P
  proof (cases "transforms (getState (this_env this)) (getBaseLinkName (this_kin this))")
    case None
    then show ?thesis
      using P by (simp add: generatePlaceProblem_missing)
  next
    case (Some cb)
    show ?thesis
      using P unfolding generatePlaceProblem_eq [OF Some]
      by (auto simp add: joint_constraint_terms_StaticPose joint_constraint_terms_append)
  qed
  have pick: "joint_constraint_terms (cnt_infos (generatePickProblem this' a f k))
     = [\<lparr> jc_term_type = TT_CNT, jc_timestep = 0, jc_name = ''start_pos_constraint'',
          jc_vals = getCurrentJointValues (this_env this') \<rparr>]
   \<and> init_type (generatePickProblem this' a f k) = STATIONARY
   \<and> init_data (generatePickProblem this' a f k)
       = getCurrentJointValuesOf (this_env this') (getName (this_kin this'))" for this' a f k
    by (simp add: generatePickProblem_eq joint_constraint_terms_StaticPose)
  have demo: "getCurrentJointValues (this_env (demo_this True)) = [0, 1, 2]"
    "getCurrentJointValuesOf (this_env (demo_this True)) (getName (this_kin (demo_this True)))
       = [0, 1]"
    "getJointNames (this_kin (demo_this True)) = [''joint_a'', ''joint_b'']"
    by (simp_all add: demo_this_def TrajoptPickAndPlaceConstructor_def demo_env_def
        demo_kin_def)
  show ?thesis
    using place pick [of this a f k] 
    by (simp add: pick [of "demo_this True"] demo)
qed

text \<open>
  The theorem for the place problem of the small cell.
\<close>

theorem boundary_constraint_whole_robot_witness:
  "generatePlaceProblem (demo_this True) quarter_turn_z identity_pose quarter_turn_z 3
       = Inr (projr (generatePlaceProblem (demo_this True) quarter_turn_z identity_pose
                       quarter_turn_z 3))
   \<and> map jc_vals (joint_constraint_terms (cnt_infos (projr (generatePlaceProblem
         (demo_this True) quarter_turn_z identity_pose quarter_turn_z 3)))) = [[0, 1, 2]]
   \<and> init_data (projr (generatePlaceProblem (demo_this True) quarter_turn_z identity_pose
         quarter_turn_z 3)) = [0, 1]"
proof -
  have inr: "generatePlaceProblem (demo_this True) quarter_turn_z identity_pose quarter_turn_z 3
       = Inr (projr (generatePlaceProblem (demo_this True) quarter_turn_z identity_pose
                       quarter_turn_z 3))"
    by (simp add: generatePlaceProblem_eq [OF demo_transforms])
  note t = boundary_constraint_whole_robot [where this = "demo_this True"
      and r = quarter_turn_z and a = identity_pose and f = quarter_turn_z and k = 3]
  have demo: "getCurrentJointValues (this_env (demo_this True)) = [0, 1, 2]"
    "getCurrentJointValuesOf (this_env (demo_this True)) (getName (this_kin (demo_this True)))
       = [0, 1]"
    by (simp_all add: demo_this_fields demo_env_def demo_kin_def)
  show ?thesis
    using inr t demo by simp
qed

end
